theory Spec2Isabelle
  imports Complex_Main "HOL-Library.Sublist"
begin

section \<open>JavaScript strings\<close>

text \<open>
  A JavaScript string is modelled as a \<^typ>\<open>string\<close>: the list of its code units, for
  code units below 256. The helpers below are the \<open>String.prototype\<close> methods the
  agent and the memory manager call.
\<close>

definition is_ws :: "char \<Rightarrow> bool" where
  \<comment> \<open>white space and line terminators, as \<open>trim\<close> and the regular expression class \<open>\s\<close> see them\<close>
  "is_ws c = (c \<in> set [CHR 0x09, CHR 0x0A, CHR 0x0B, CHR 0x0C, CHR 0x0D, CHR 0x20, CHR 0xA0])"

definition trim :: "string \<Rightarrow> string" where
  "trim s = rev (dropWhile is_ws (rev (dropWhile is_ws s)))"

definition startsWith :: "string \<Rightarrow> string \<Rightarrow> bool" where
  "startsWith s p = (take (length p) s = p)"

definition substring :: "string \<Rightarrow> nat \<Rightarrow> string" where
  "substring s n = drop n s"

fun str_includes :: "string \<Rightarrow> string \<Rightarrow> bool" where
  "str_includes [] p = (p = [])"
| "str_includes (c # cs) p = (startsWith (c # cs) p \<or> str_includes cs p)"

definition lower_char :: "char \<Rightarrow> char" where
  "lower_char c =
     (let n = (of_char c :: nat)
      in if (65 \<le> n \<and> n \<le> 90) \<or> (192 \<le> n \<and> n \<le> 222 \<and> n \<noteq> 215) then char_of (n + 32) else c)"

definition upper_char :: "char \<Rightarrow> char" where
  \<comment> \<open>the canonical form a case-insensitive regular expression compares\<close>
  "upper_char c =
     (let n = (of_char c :: nat)
      in if (97 \<le> n \<and> n \<le> 122) \<or> (224 \<le> n \<and> n \<le> 254 \<and> n \<noteq> 247) then char_of (n - 32) else c)"

definition toLowerCase :: "string \<Rightarrow> string" where
  "toLowerCase s = map lower_char s"

fun split_nl :: "string \<Rightarrow> string list" where
  \<comment> \<open>\<open>s.split('\n')\<close>\<close>
  "split_nl [] = [[]]"
| "split_nl (c # cs) =
     (if c = CHR 0x0A then [] # split_nl cs
      else (case split_nl cs of [] \<Rightarrow> [[c]] | l # ls \<Rightarrow> (c # l) # ls))"

definition remove_commas :: "string \<Rightarrow> string" where
  \<comment> \<open>\<open>s.replace(/,/g, '')\<close>\<close>
  "remove_commas s = filter (\<lambda>c. c \<noteq> CHR '','') s"

section \<open>Regular expressions\<close>

text \<open>
  The regular expressions of the source are kept as data and run by a backtracking
  matcher that lists the ways a pattern can match at the head of the input, in the
  order in which a backtracking engine tries them: the first element is the match
  JavaScript reports.
\<close>

datatype cls = CChar char | CRange char char | CDigit | CSpace | CNonSpace

datatype regex =
    Eps
  | Cls "cls list"
  | EndAnchor
  | Seq regex regex
  | Alt regex regex
  | Star regex
  | LazyStar regex
  | Grp nat regex

type_synonym caps = "(nat \<times> string) list"

definition in_range :: "char \<Rightarrow> char \<Rightarrow> char \<Rightarrow> bool" where
  "in_range a b c = ((of_char a :: nat) \<le> of_char c \<and> (of_char c :: nat) \<le> of_char b)"

fun cls_match :: "bool \<Rightarrow> char \<Rightarrow> cls \<Rightarrow> bool" where
  "cls_match ic c (CChar d) = (if ic then upper_char c = upper_char d else c = d)"
| "cls_match ic c (CRange a b) =
     (in_range a b c \<or> (ic \<and> (in_range a b (upper_char c) \<or> in_range a b (lower_char c))))"
| "cls_match ic c CDigit = in_range (CHR ''0'') (CHR ''9'') c"
| "cls_match ic c CSpace = is_ws c"
| "cls_match ic c CNonSpace = (\<not> is_ws c)"

fun rmatch :: "bool \<Rightarrow> regex \<Rightarrow> string \<times> caps \<Rightarrow> (string \<times> caps) list" where
  "rmatch ic Eps st = [st]"
| "rmatch ic (Cls cs) (s, cp) =
     (case s of [] \<Rightarrow> [] | c # r \<Rightarrow> if list_ex (cls_match ic c) cs then [(r, cp)] else [])"
| "rmatch ic EndAnchor (s, cp) = (if s = [] then [(s, cp)] else [])"
| "rmatch ic (Seq a b) st = concat (map (rmatch ic b) (rmatch ic a st))"
| "rmatch ic (Alt a b) st = rmatch ic a st @ rmatch ic b st"
| "rmatch ic (Star a) (s, cp) =
     concat (map (\<lambda>st'. if length (fst st') < length s then rmatch ic (Star a) st' else [])
                 (rmatch ic a (s, cp))) @ [(s, cp)]"
| "rmatch ic (LazyStar a) (s, cp) =
     (s, cp) # concat (map (\<lambda>st'. if length (fst st') < length s then rmatch ic (LazyStar a) st' else [])
                           (rmatch ic a (s, cp)))"
| "rmatch ic (Grp n a) (s, cp) =
     map (\<lambda>st'. (fst st', (n, take (length s - length (fst st')) s) # snd st')) (rmatch ic a (s, cp))"

definition Plus :: "regex \<Rightarrow> regex" where "Plus r = Seq r (Star r)"
definition LazyPlus :: "regex \<Rightarrow> regex" where "LazyPlus r = Seq r (LazyStar r)"
definition Opt :: "regex \<Rightarrow> regex" where "Opt r = Alt r Eps"
definition Chr :: "char \<Rightarrow> regex" where "Chr c = Cls [CChar c]"
definition Lit :: "string \<Rightarrow> regex" where "Lit s = foldr (\<lambda>c r. Seq (Chr c) r) s Eps"
definition Cat :: "regex list \<Rightarrow> regex" where "Cat rs = foldr Seq rs Eps"
definition AltL :: "regex list \<Rightarrow> regex" where "AltL rs = foldr Alt (butlast rs) (last rs)"

definition exec_at :: "bool \<Rightarrow> regex \<Rightarrow> string \<Rightarrow> (string \<times> caps) option" where
  "exec_at ic r s = (case rmatch ic r (s, []) of [] \<Rightarrow> None | x # _ \<Rightarrow> Some x)"

fun rsearch :: "bool \<Rightarrow> regex \<Rightarrow> string \<Rightarrow> (string \<times> string \<times> caps) option" where
  \<comment> \<open>the leftmost match: the matched text, the input after it, the capture groups\<close>
  "rsearch ic r [] =
     (case exec_at ic r [] of None \<Rightarrow> None | Some (rest, cp) \<Rightarrow> Some ([], rest, cp))"
| "rsearch ic r (c # cs) =
     (case exec_at ic r (c # cs) of
        Some (rest, cp) \<Rightarrow> Some (take (length (c # cs) - length rest) (c # cs), rest, cp)
      | None \<Rightarrow> rsearch ic r cs)"

definition str_match :: "bool \<Rightarrow> regex \<Rightarrow> string \<Rightarrow> (nat \<Rightarrow> string option) option" where
  \<comment> \<open>\<open>s.match(re)\<close> without the global flag: the capture groups, group 0 the whole match\<close>
  "str_match ic r s =
     (case rsearch ic r s of None \<Rightarrow> None
      | Some (m, rest, cp) \<Rightarrow> Some (map_of ((0, m) # cp)))"


function str_match_all :: "regex \<Rightarrow> string \<Rightarrow> string list" where
  \<comment> \<open>\<open>s.match(re)\<close> with the global flag (and no \<open>i\<close> flag): every match, left to right,
      the next search starting where the last match ended (one further on after an empty match)\<close>
  "str_match_all r s =
     (case rsearch False r s of
        None \<Rightarrow> []
      | Some (m, rest, cp) \<Rightarrow>
          (case (if m = [] then (case rest of [] \<Rightarrow> None | c # rest' \<Rightarrow> Some rest') else Some rest) of
             None \<Rightarrow> [m]
           | Some next \<Rightarrow> if length next < length s then m # str_match_all r next else [m]))"
  by pat_completeness auto
termination
  by (relation "measure (\<lambda>(r, s). length s)") auto

section \<open>JavaScript numbers\<close>

text \<open>
  A Number is an IEEE 754 binary64 value: a finite one is the rational it denotes.
  \<open>fl\<close> rounds a rational to the nearest binary64 value, ties to even, with overflow
  to infinity and gradual underflow. The sign of zero is not modelled: no computation
  below divides by a negative zero.
\<close>

datatype jsnum = Fin rat | PInf | NInf | NaN

fun bit_length :: "nat \<Rightarrow> nat" where
  "bit_length n = (if n = 0 then 0 else Suc (bit_length (n div 2)))"

declare bit_length.simps [simp del]

definition pow2 :: "int \<Rightarrow> rat" where
  "pow2 e = (if 0 \<le> e then 2 ^ nat e else 1 / 2 ^ nat (- e))"

definition ilog2 :: "rat \<Rightarrow> int" where
  \<comment> \<open>\<open>\<lfloor>log\<^sub>2 q\<rfloor>\<close> for a positive \<open>q\<close>\<close>
  "ilog2 q =
     (if 1 \<le> q then int (bit_length (nat \<lfloor>q\<rfloor>)) - 1
      else - int (bit_length (nat (\<lceil>1 / q\<rceil> - 1))))"

definition round_half_even :: "rat \<Rightarrow> int" where
  "round_half_even q =
     (let f = \<lfloor>q\<rfloor>; d = q - of_int f
      in if d < 1 / 2 then f else if 1 / 2 < d then f + 1 else if even f then f else f + 1)"

definition fl :: "rat \<Rightarrow> jsnum" where
  "fl q =
     (if q = 0 then Fin 0
      else let a = \<bar>q\<bar>;
               e = max (ilog2 a) (- 1022);
               u = pow2 (e - 52);
               r = of_int (round_half_even (a / u)) * u
           in if pow2 1024 \<le> r then (if 0 < q then PInf else NInf)
              else Fin (if 0 < q then r else - r))"

fun js_sub :: "jsnum \<Rightarrow> jsnum \<Rightarrow> jsnum" where
  "js_sub (Fin a) (Fin b) = fl (a - b)"
| "js_sub NaN _ = NaN"
| "js_sub _ NaN = NaN"
| "js_sub PInf PInf = NaN"
| "js_sub NInf NInf = NaN"
| "js_sub PInf _ = PInf"
| "js_sub NInf _ = NInf"
| "js_sub _ PInf = NInf"
| "js_sub _ NInf = PInf"

fun js_div :: "jsnum \<Rightarrow> jsnum \<Rightarrow> jsnum" where
  "js_div (Fin a) (Fin b) =
     (if b = 0 then (if a = 0 then NaN else if 0 < a then PInf else NInf) else fl (a / b))"
| "js_div NaN _ = NaN"
| "js_div _ NaN = NaN"
| "js_div (Fin a) PInf = Fin 0"
| "js_div (Fin a) NInf = Fin 0"
| "js_div PInf (Fin b) = (if 0 \<le> b then PInf else NInf)"
| "js_div NInf (Fin b) = (if 0 \<le> b then NInf else PInf)"
| "js_div PInf PInf = NaN"
| "js_div PInf NInf = NaN"
| "js_div NInf PInf = NaN"
| "js_div NInf NInf = NaN"

fun js_mul :: "jsnum \<Rightarrow> jsnum \<Rightarrow> jsnum" where
  "js_mul (Fin a) (Fin b) = fl (a * b)"
| "js_mul NaN _ = NaN"
| "js_mul _ NaN = NaN"
| "js_mul (Fin a) PInf = (if a = 0 then NaN else if 0 < a then PInf else NInf)"
| "js_mul (Fin a) NInf = (if a = 0 then NaN else if 0 < a then NInf else PInf)"
| "js_mul PInf (Fin b) = (if b = 0 then NaN else if 0 < b then PInf else NInf)"
| "js_mul NInf (Fin b) = (if b = 0 then NaN else if 0 < b then NInf else PInf)"
| "js_mul PInf PInf = PInf"
| "js_mul NInf NInf = PInf"
| "js_mul PInf NInf = NInf"
| "js_mul NInf PInf = NInf"

fun js_gt :: "jsnum \<Rightarrow> jsnum \<Rightarrow> bool" where
  \<comment> \<open>\<open>x > y\<close>\<close>
  "js_gt NaN _ = False"
| "js_gt _ NaN = False"
| "js_gt (Fin a) (Fin b) = (b < a)"
| "js_gt PInf PInf = False"
| "js_gt PInf _ = True"
| "js_gt NInf _ = False"
| "js_gt (Fin a) PInf = False"
| "js_gt (Fin a) NInf = True"

definition js_lt :: "jsnum \<Rightarrow> jsnum \<Rightarrow> bool" where
  "js_lt x y = js_gt y x"

fun js_strict_eq :: "jsnum \<Rightarrow> jsnum \<Rightarrow> bool" where
  \<comment> \<open>\<open>x === y\<close> on numbers\<close>
  "js_strict_eq NaN _ = False"
| "js_strict_eq _ NaN = False"
| "js_strict_eq x y = (x = y)"

fun isFinite :: "jsnum \<Rightarrow> bool" where
  "isFinite (Fin a) = True"
| "isFinite _ = False"

fun num_truthy :: "jsnum \<Rightarrow> bool" where
  "num_truthy (Fin a) = (a \<noteq> 0)"
| "num_truthy NaN = False"
| "num_truthy _ = True"

definition is_digit :: "char \<Rightarrow> bool" where
  "is_digit c = in_range (CHR ''0'') (CHR ''9'') c"

definition digits_val :: "string \<Rightarrow> nat" where
  "digits_val ds = foldl (\<lambda>acc c. 10 * acc + (of_char c - 48)) 0 ds"

definition parseInt :: "string \<Rightarrow> jsnum" where
  \<comment> \<open>\<open>parseInt(s)\<close> for an \<open>s\<close> that starts with neither white space, a sign nor \<open>0x\<close>:
      the leading decimal digits, \<open>NaN\<close> when there are none\<close>
  "parseInt s = (let ds = takeWhile is_digit s in if ds = [] then NaN else fl (of_nat (digits_val ds)))"

definition parseFloat :: "string \<Rightarrow> jsnum" where
  \<comment> \<open>\<open>parseFloat(s)\<close> for an \<open>s\<close> of the form digits, or digits \<open>.\<close> digits\<close>
  "parseFloat s =
     (let ip = takeWhile is_digit s; rest = dropWhile is_digit s
      in if ip = [] then NaN
         else (case rest of
                 c # fs \<Rightarrow>
                   (let fp = takeWhile is_digit fs
                    in if c = CHR ''.'' then fl (of_nat (digits_val ip) + of_nat (digits_val fp) / 10 ^ length fp)
                       else fl (of_nat (digits_val ip)))
               | [] \<Rightarrow> fl (of_nat (digits_val ip))))"


fun show_nat :: "nat \<Rightarrow> string" where
  "show_nat n = (if n < 10 then [char_of (48 + n)] else show_nat (n div 10) @ [char_of (48 + n mod 10)])"

declare show_nat.simps [simp del]

definition show_int :: "int \<Rightarrow> string" where
  \<comment> \<open>an integer Number inside a template literal\<close>
  "show_int i = (if i < 0 then CHR ''-'' # show_nat (nat (- i)) else show_nat (nat i))"

section \<open>Tool results and the outside world\<close>

text \<open>
  \<open>ToolResult.data\<close> has type \<open>any\<close>; the values the tools build are JSON values.
\<close>

datatype json =
    JNull
  | JBool bool
  | JNum jsnum
  | JStr string
  | JArr "json list"
  | JObj "(string \<times> json) list"

fun truthy :: "json \<Rightarrow> bool" where
  "truthy JNull = False"
| "truthy (JBool b) = b"
| "truthy (JNum n) = num_truthy n"
| "truthy (JStr s) = (s \<noteq> [])"
| "truthy (JArr xs) = True"
| "truthy (JObj kvs) = True"

record ToolResult =
  success :: bool
  data :: json
  error :: "string option"
  executionTime :: "int option"

text \<open>
  A thrown value: \<open>Some m\<close> is an \<open>Error\<close> with message \<open>m\<close>, \<open>None\<close> any other value.
  \<open>error_message e d\<close> is \<open>e instanceof Error ? e.message : d\<close>.
\<close>

type_synonym thrown = "string option"

definition error_message :: "thrown \<Rightarrow> string \<Rightarrow> string" where
  "error_message e d = (case e of Some m \<Rightarrow> m | None \<Rightarrow> d)"

record search_response =
  organic_results :: "json list option"
  news_results :: "json list option"
  related_searches :: "json list option"
  answer_box :: "json option"

record http_response =
  ok :: bool
  statusText :: string
  json_body :: "thrown + json"

text \<open>The value a sanitized arithmetic expression evaluates to: a Number, or something else.\<close>

datatype evalres = ENumber jsnum | ENotNumber

text \<open>
  The collaborators of the tools are parameters: the clock, the web search, the maps
  endpoint, the two completion calls (each takes the topic that its prompt is built
  around), the evaluation of a function body, and the two formatting built-ins. The
  world \<open>'w\<close> is threaded through every call that can observe or change it, so the
  order of the calls is part of the model. A collaborator that answers with a value
  of another shape than its declared one makes the tool throw inside its \<open>try\<close> block:
  that is one of the ways in which the call is \<open>Inl\<close>.
\<close>

record 'w env =
  date_now :: "'w \<Rightarrow> int \<times> 'w"
  data_search :: "string \<Rightarrow> 'w \<Rightarrow> (thrown + search_response) \<times> 'w"
  fetch_maps :: "string \<Rightarrow> 'w \<Rightarrow> (thrown + http_response) \<times> 'w"
  generateObject :: "string \<Rightarrow> 'w \<Rightarrow> (thrown + json) \<times> 'w"
  generateText :: "string \<Rightarrow> 'w \<Rightarrow> (thrown + string) \<times> 'w"
  eval_function :: "string \<Rightarrow> thrown + evalres"
  toLocaleString :: "jsnum \<Rightarrow> string"
  JSON_stringify :: "json \<Rightarrow> string"

section \<open>The tools\<close>

text \<open>The static methods of the class \<open>ReActTools\<close> of the agent module \<open>react-agent\<close>.\<close>

definition or_empty :: "json list option \<Rightarrow> nat \<Rightarrow> json" where
  \<comment> \<open>\<open>xs?.slice(0, n) || []\<close>\<close>
  "or_empty xs n = (case xs of None \<Rightarrow> JArr [] | Some ys \<Rightarrow> JArr (take n ys))"

definition search :: "'w env \<Rightarrow> string \<Rightarrow> 'w \<Rightarrow> ToolResult \<times> 'w" where
  "search env query w0 =
     (let (startTime, w1) = date_now env w0;
          (r, w2) = data_search env query w1;
          (endTime, w3) = date_now env w2
      in (case r of
           Inr response \<Rightarrow>
             (\<lparr>success = True,
               data = JObj
                 [(''query'', JStr query),
                  (''organic_results'', or_empty (organic_results response) 5),
                  (''news_results'', or_empty (news_results response) 3),
                  (''related_searches'', or_empty (related_searches response) 3),
                  (''answer_box'',
                     (case answer_box response of None \<Rightarrow> JNull
                      | Some b \<Rightarrow> if truthy b then b else JNull)),
                  (''total_results'',
                     JNum (Fin (case organic_results response of None \<Rightarrow> 0
                                | Some ys \<Rightarrow> of_nat (length ys))))],
               error = None,
               executionTime = Some (endTime - startTime)\<rparr>, w3)
         | Inl e \<Rightarrow>
             (\<lparr>success = False,
               data = JNull,
               error = Some (''Search failed: '' @ error_message e ''Unknown error''),
               executionTime = Some (endTime - startTime)\<rparr>, w3)))"

definition maps_fallback :: "string \<Rightarrow> json" where
  \<comment> \<open>the mock payload of the \<open>catch\<close> branch of \<open>maps\<close>\<close>
  "maps_fallback query =
     JObj
       [(''query'', JStr query),
        (''places'', JArr
           [JObj
              [(''name'', JStr (if str_includes query ''Kathmandu'' then ''Kathmandu Valley'' else ''Nepal Location'')),
               (''address'', JStr query),
               (''coordinates'', JObj [(''lat'', JNum (fl (277172 / 10000))), (''lng'', JNum (fl (85324 / 1000)))]),
               (''nearby_amenities'', JArr [JStr ''Schools'', JStr ''Hospitals'', JStr ''Markets'', JStr ''Transport'']),
               (''commute_info'', JStr ''Well connected to major areas''),
               (''infrastructure'', JStr ''Good road connectivity and utilities''),
               (''safety_rating'', JStr ''Good''),
               (''demographics'', JStr ''Mixed residential and commercial area'')]]),
        (''infrastructure_projects'', JArr
           [JStr ''Road expansion planned for 2024'', JStr ''New metro line under construction'']),
        (''commute_times'', JObj
           [(''City Center'', JStr ''15-20 minutes''),
            (''Airport'', JStr ''30-40 minutes''),
            (''Business District'', JStr ''10-15 minutes'')])]"

definition maps :: "'w env \<Rightarrow> string \<Rightarrow> 'w \<Rightarrow> ToolResult \<times> 'w" where
  "maps env query w0 =
     (let (startTime, w1) = date_now env w0;
          (r, w2) = fetch_maps env query w1;
          (endTime, w3) = date_now env w2
      in (\<lparr>success = True,
          data =
            (case r of
               Inl e \<Rightarrow> maps_fallback query
             | Inr response \<Rightarrow>
                 if \<not> ok response then maps_fallback query
                 else (case json_body response of
                         Inl e \<Rightarrow> maps_fallback query
                       | Inr d \<Rightarrow> d)),
          error = None,
          executionTime = Some (endTime - startTime)\<rparr>, w3))"

definition interpretCalculationResult :: "jsnum \<Rightarrow> string \<Rightarrow> string" where
  "interpretCalculationResult result t =
     (if t = ''roi'' then
        (if js_gt result (Fin 20) then ''Excellent ROI - Very attractive investment''
         else if js_gt result (Fin 15) then ''Good ROI - Solid investment opportunity''
         else if js_gt result (Fin 10) then ''Moderate ROI - Acceptable investment''
         else if js_gt result (Fin 5) then ''Low ROI - Consider other options''
         else ''Poor ROI - Not recommended'')
      else if t = ''rental_yield'' then
        (if js_gt result (Fin 8) then ''Excellent rental yield - Very profitable''
         else if js_gt result (Fin 6) then ''Good rental yield - Profitable investment''
         else if js_gt result (Fin 4) then ''Moderate rental yield - Average returns''
         else if js_gt result (Fin 2) then ''Low rental yield - Below market average''
         else ''Poor rental yield - Consider other investments'')
      else ''Calculation completed successfully'')"

definition digit :: regex where "digit = Cls [CDigit]"
definition space :: regex where "space = Cls [CSpace]"

definition number_re :: regex where
  \<comment> \<open>\<open>\d+(?:,\d{3})*(?:\.\d+)?\<close>\<close>
  "number_re =
     Cat [Plus digit, Star (Cat [Chr (CHR '',''), digit, digit, digit]), Opt (Cat [Chr (CHR ''.''), Plus digit])]"

definition sanitize :: "string \<Rightarrow> string" where
  \<comment> \<open>\<open>expression.replace(/[^0-9+\-*/.() ]/g, '')\<close>\<close>
  "sanitize expression = filter (\<lambda>c. is_digit c \<or> c \<in> set ''+-*/.() '') expression"

definition calculate :: "'w env \<Rightarrow> string \<Rightarrow> thrown + (evalres \<times> string)" where
  \<comment> \<open>the first part of the \<open>try\<close> block of \<open>calculator\<close>: the result and the calculation type, or what is thrown\<close>
  "calculate env expression =
     (if str_includes (toLowerCase expression) ''roi''
         \<or> str_includes (toLowerCase expression) ''return on investment'' then
        (case str_match_all (Grp 1 number_re) expression of
           m0 # m1 # ms \<Rightarrow>
             (let gain = parseFloat (remove_commas m0);
                  cost = parseFloat (remove_commas m1)
              in Inr (ENumber (js_mul (js_div (js_sub gain cost) cost) (Fin 100)), ''roi''))
         | _ \<Rightarrow> Inl (Some ''ROI calculation requires gain and cost values''))
      else if str_includes (toLowerCase expression) ''rental yield'' then
        (case str_match_all (Grp 1 number_re) expression of
           m0 # m1 # ms \<Rightarrow>
             (let annualRent = parseFloat (remove_commas m0);
                  propertyValue = parseFloat (remove_commas m1)
              in Inr (ENumber (js_mul (js_div annualRent propertyValue) (Fin 100)), ''rental_yield''))
         | _ \<Rightarrow> Inl (Some ''Rental yield calculation requires annual rent and property value''))
      else
        (case eval_function env (''return '' @ sanitize expression) of
           Inl e \<Rightarrow> Inl e
         | Inr v \<Rightarrow> Inr (v, ''basic'')))"

definition calculator :: "'w env \<Rightarrow> string \<Rightarrow> 'w \<Rightarrow> ToolResult \<times> 'w" where
  "calculator env expression w0 =
     (let (startTime, w1) = date_now env w0;
          (endTime, w2) = date_now env w1
      in (let failed = (\<lambda>e. \<lparr>success = False,
                              data = JNull,
                              error = Some (''Calculation failed: '' @ error_message e ''Invalid expression''),
                              executionTime = Some (endTime - startTime)\<rparr>)
         in (case calculate env expression of
               Inl e \<Rightarrow> failed e
             | Inr (ENotNumber, calculation_type) \<Rightarrow> failed (Some ''Invalid calculation result'')
             | Inr (ENumber result, calculation_type) \<Rightarrow>
                 if \<not> isFinite result then failed (Some ''Invalid calculation result'')
                 else \<lparr>success = True,
                       data = JObj
                         [(''expression'', JStr expression),
                          (''result'', JNum result),
                          (''formatted'', JStr (toLocaleString env result)),
                          (''calculation_type'', JStr calculation_type),
                          (''interpretation'', JStr (interpretCalculationResult result calculation_type))],
                       error = None,
                       executionTime = Some (endTime - startTime)\<rparr>), w2))"

definition marketAnalysis :: "'w env \<Rightarrow> string \<Rightarrow> 'w \<Rightarrow> ToolResult \<times> 'w" where
  "marketAnalysis env topic w0 =
     (let (startTime, w1) = date_now env w0;
          (r1, w2) = generateObject env topic w1
      in (case r1 of
            Inr obj \<Rightarrow>
              (let (endTime, w3) = date_now env w2
               in (\<lparr>success = True, data = obj, error = None,
                    executionTime = Some (endTime - startTime)\<rparr>, w3))
          | Inl e \<Rightarrow>
              (let (r2, w3) = generateText env topic w2;
                   (endTime, w4) = date_now env w3
               in (case r2 of
                     Inr text \<Rightarrow>
                       (\<lparr>success = True,
                         data = JObj
                           [(''topic'', JStr topic),
                            (''analysis'', JStr text),
                            (''market_trends'', JArr
                               [JStr ''Growing demand in Kathmandu Valley'',
                                JStr ''Infrastructure development driving prices'',
                                JStr ''Foreign investment increasing'']),
                            (''key_insights'', JArr
                               [JStr ''Land appreciation outpacing built properties'',
                                JStr ''Rental yields averaging 6-8%'',
                                JStr ''Commercial properties showing strong growth''])],
                         error = None,
                         executionTime = Some (endTime - startTime)\<rparr>, w4)
                   | Inl fallbackError \<Rightarrow>
                       (\<lparr>success = False,
                         data = JNull,
                         error = Some (''Market analysis failed: '' @ error_message e ''Analysis unavailable''),
                         executionTime = Some (endTime - startTime)\<rparr>, w4)))))"

definition clarify :: "string \<Rightarrow> ToolResult" where
  "clarify question =
     \<lparr>success = True,
      data = JObj
        [(''clarification_needed'', JBool True),
         (''question'', JStr question),
         (''suggested_details'', JArr
            [JStr ''Property type (apartment, house, commercial, land)'',
             JStr ''Budget range in NPR'',
             JStr ''Preferred location/area'',
             JStr ''Number of bedrooms/bathrooms'',
             JStr ''Rent or purchase'',
             JStr ''Specific amenities or features''])],
      error = None,
      executionTime = Some 0\<rparr>"


subsection \<open>The property database tool\<close>

record criteria =
  minPrice :: "jsnum option"
  maxPrice :: "jsnum option"
  bedrooms_c :: "jsnum option"
  location_c :: "string option"
  propertyType_c :: "string option"
  priceType_c :: "string option"

definition no_criteria :: criteria where
  \<comment> \<open>\<open>const criteria: any = {}\<close>\<close>
  "no_criteria =
     \<lparr>minPrice = None, maxPrice = None, bedrooms_c = None, location_c = None,
      propertyType_c = None, priceType_c = None\<rparr>"

definition price_re :: regex where
  \<comment> \<open>\<open>/(\d+(?:,\d{3})*(?:\.\d+)?)(?:\s*-\s*(\d+(?:,\d{3})*(?:\.\d+)?))?(?:\s*(?:NPR|rupees?|rs\.?))/i\<close>\<close>
  "price_re =
     Cat [Grp 1 number_re,
          Opt (Cat [Star space, Chr (CHR ''-''), Star space, Grp 2 number_re]),
          Cat [Star space,
               AltL [Lit ''NPR'',
                     Cat [Lit ''rupee'', Opt (Chr (CHR ''s''))],
                     Cat [Lit ''rs'', Opt (Chr (CHR ''.''))]]]]"

definition budget_re :: regex where
  \<comment> \<open>\<open>/budget\s+(?:of\s+)?(?:NPR\s+)?(\d+(?:,\d{3})*(?:\.\d+)?)(?:\s*-\s*(\d+(?:,\d{3})*(?:\.\d+)?))?/i\<close>\<close>
  "budget_re =
     Cat [Lit ''budget'', Plus space,
          Opt (Cat [Lit ''of'', Plus space]),
          Opt (Cat [Lit ''NPR'', Plus space]),
          Grp 1 number_re,
          Opt (Cat [Star space, Chr (CHR ''-''), Star space, Grp 2 number_re])]"

definition bedroom_re :: regex where
  \<comment> \<open>\<open>/(\d+)\s*(?:BHK|bedroom|BR|bed)/i\<close>\<close>
  "bedroom_re =
     Cat [Grp 1 (Plus digit), Star space, AltL [Lit ''BHK'', Lit ''bedroom'', Lit ''BR'', Lit ''bed'']]"

definition location_re :: regex where
  \<comment> \<open>\<open>/(?:in|at|near|around)\s+([A-Za-z\s]+?)(?:\s|$|budget|price|NPR|for|with)/i\<close>\<close>
  "location_re =
     Cat [AltL [Lit ''in'', Lit ''at'', Lit ''near'', Lit ''around''],
          Plus space,
          Grp 1 (LazyPlus (Cls [CRange (CHR ''A'') (CHR ''Z''), CRange (CHR ''a'') (CHR ''z''), CSpace])),
          AltL [space, EndAnchor, Lit ''budget'', Lit ''price'', Lit ''NPR'', Lit ''for'', Lit ''with'']]"

definition set_prices :: "(nat \<Rightarrow> string option) option \<Rightarrow> criteria \<Rightarrow> criteria" where
  \<comment> \<open>what both price blocks do with their match; group 1 takes part in every match\<close>
  "set_prices m c =
     (case m of
        None \<Rightarrow> c
      | Some g \<Rightarrow>
          (case g 1 of
             None \<Rightarrow> c
           | Some g1 \<Rightarrow>
               (let c1 = c\<lparr>minPrice := Some (parseInt (remove_commas g1))\<rparr>
                in (case g 2 of
                      None \<Rightarrow> c1
                    | Some g2 \<Rightarrow>
                        if g2 = [] then c1
                        else c1\<lparr>maxPrice := Some (parseInt (remove_commas g2))\<rparr>))))"

definition parsePropertyQuery :: "string \<Rightarrow> criteria" where
  "parsePropertyQuery query =
     (let c1 = set_prices (str_match True price_re query) no_criteria;
          c2 = set_prices (str_match True budget_re query) c1;
          c3 = (case str_match True bedroom_re query of
                  None \<Rightarrow> c2
                | Some g \<Rightarrow> (case g 1 of None \<Rightarrow> c2 | Some g1 \<Rightarrow> c2\<lparr>bedrooms_c := Some (parseInt g1)\<rparr>));
          c4 = (case str_match True location_re query of
                  None \<Rightarrow> c3
                | Some g \<Rightarrow> (case g 1 of None \<Rightarrow> c3 | Some g1 \<Rightarrow> c3\<lparr>location_c := Some (trim g1)\<rparr>));
          q = toLowerCase query;
          c5 = (if str_includes q ''commercial'' then c4\<lparr>propertyType_c := Some ''commercial''\<rparr>
                else if str_includes q ''land'' then c4\<lparr>propertyType_c := Some ''land''\<rparr>
                else if str_includes q ''house'' then c4\<lparr>propertyType_c := Some ''house''\<rparr>
                else if str_includes q ''apartment'' \<or> str_includes q ''flat''
                  then c4\<lparr>propertyType_c := Some ''apartment''\<rparr>
                else c4)
      in if str_includes q ''for rent'' \<or> str_includes q ''rental'' then c5\<lparr>priceType_c := Some ''rent''\<rparr>
         else if str_includes q ''for sale'' \<or> str_includes q ''buy'' then c5\<lparr>priceType_c := Some ''sale''\<rparr>
         else c5)"

record property =
  id_p :: string
  title :: string
  price :: jsnum
  priceType :: string
  bedrooms :: jsnum
  bathrooms :: jsnum
  area :: jsnum
  areaUnit :: "string option"
  location :: string
  amenities :: "string list"
  features :: "string list"
  match_score :: jsnum
  property_age :: string
  floor_p :: string

definition mockProperties :: "property list" where
  "mockProperties =
     [\<lparr>id_p = ''1'', title = ''2BHK Modern Apartment in Kupondole'', price = Fin 32000,
       priceType = ''rent'', bedrooms = Fin 2, bathrooms = Fin 2, area = Fin 800, areaUnit = None,
       location = ''Kupondole, Lalitpur'',
       amenities = [''Parking'', ''WiFi'', ''Security'', ''Elevator''],
       features = [''Modern Kitchen'', ''Balcony'', ''Furnished''],
       match_score = fl (95 / 100), property_age = ''2 years'', floor_p = ''4th Floor''\<rparr>,
      \<lparr>id_p = ''2'', title = ''2BHK Spacious Flat in Pulchowk'', price = Fin 35000,
       priceType = ''rent'', bedrooms = Fin 2, bathrooms = Fin 2, area = Fin 900, areaUnit = None,
       location = ''Pulchowk, Lalitpur'',
       amenities = [''Parking'', ''Elevator'', ''Garden'', ''Security''],
       features = [''Garden View'', ''Semi-Furnished'', ''Storage''],
       match_score = fl (88 / 100), property_age = ''1 year'', floor_p = ''3rd Floor''\<rparr>,
      \<lparr>id_p = ''3'', title = ''3BHK Family House in Baneshwor'', price = Fin 45000,
       priceType = ''rent'', bedrooms = Fin 3, bathrooms = Fin 3, area = Fin 1200, areaUnit = None,
       location = ''Baneshwor, Kathmandu'',
       amenities = [''Parking'', ''Garden'', ''Security'', ''Water Tank''],
       features = [''Independent House'', ''Terrace'', ''Unfurnished''],
       match_score = fl (82 / 100), property_age = ''5 years'', floor_p = ''Ground + 1''\<rparr>,
      \<lparr>id_p = ''4'', title = ''Commercial Space in Thamel'', price = Fin 80000,
       priceType = ''rent'', bedrooms = Fin 0, bathrooms = Fin 2, area = Fin 600, areaUnit = None,
       location = ''Thamel, Kathmandu'',
       amenities = [''Parking'', ''WiFi'', ''Security'', ''Generator''],
       features = [''Street Facing'', ''High Footfall'', ''Restaurant Ready''],
       match_score = fl (90 / 100), property_age = ''3 years'', floor_p = ''Ground Floor''\<rparr>,
      \<lparr>id_p = ''5'', title = ''Land for Sale in Godawari'', price = Fin 15000000,
       priceType = ''sale'', bedrooms = Fin 0, bathrooms = Fin 0, area = Fin 5, areaUnit = Some ''ropani'',
       location = ''Godawari, Lalitpur'',
       amenities = [''Road Access'', ''Electricity'', ''Water Source''],
       features = [''Development Ready'', ''Clear Title'', ''Investment Grade''],
       match_score = fl (85 / 100), property_age = ''N/A'', floor_p = ''N/A''\<rparr>]"

definition num_and :: "jsnum option \<Rightarrow> (jsnum \<Rightarrow> bool) \<Rightarrow> bool" where
  \<comment> \<open>\<open>x && P(x)\<close> for an optional Number\<close>
  "num_and x P = (case x of None \<Rightarrow> False | Some n \<Rightarrow> num_truthy n \<and> P n)"

definition str_and :: "string option \<Rightarrow> (string \<Rightarrow> bool) \<Rightarrow> bool" where
  \<comment> \<open>\<open>x && P(x)\<close> for an optional string\<close>
  "str_and x P = (case x of None \<Rightarrow> False | Some t \<Rightarrow> t \<noteq> [] \<and> P t)"

definition keeps :: "criteria \<Rightarrow> property \<Rightarrow> bool" where
  \<comment> \<open>the predicate handed to \<open>mockProperties.filter\<close>\<close>
  "keeps c prop =
     (if num_and (maxPrice c) (\<lambda>m. js_gt (price prop) m) then False
      else if num_and (minPrice c) (\<lambda>m. js_lt (price prop) m) then False
      else if num_and (bedrooms_c c) (\<lambda>b. \<not> js_strict_eq (bedrooms prop) b) then False
      else if str_and (location_c c)
                (\<lambda>l. \<not> str_includes (toLowerCase (location prop)) (toLowerCase l)) then False
      else if str_and (propertyType_c c)
                (\<lambda>t. t = ''commercial'' \<and> \<not> str_includes (toLowerCase (title prop)) ''commercial'') then False
      else if str_and (propertyType_c c)
                (\<lambda>t. t = ''land'' \<and> \<not> str_includes (toLowerCase (title prop)) ''land'') then False
      else if str_and (propertyType_c c)
                (\<lambda>t. t = ''house'' \<and> \<not> str_includes (toLowerCase (title prop)) ''house'') then False
      else if str_and (propertyType_c c)
                (\<lambda>t. t = ''apartment'' \<and> \<not> str_includes (toLowerCase (title prop)) ''apartment''
                       \<and> \<not> str_includes (toLowerCase (title prop)) ''flat'') then False
      else if str_and (priceType_c c) (\<lambda>t. priceType prop \<noteq> t) then False
      else True)"

fun insert_by_score :: "property \<Rightarrow> property list \<Rightarrow> property list" where
  "insert_by_score a [] = [a]"
| "insert_by_score a (b # bs) =
     (if js_gt (js_sub (match_score b) (match_score a)) (Fin 0) then b # insert_by_score a bs
      else a # b # bs)"

definition sort_by_score :: "property list \<Rightarrow> property list" where
  \<comment> \<open>\<open>xs.sort((a, b) => b.match_score - a.match_score)\<close>: the sort is stable, and \<open>b\<close> goes
      before \<open>a\<close> only where the comparator is positive\<close>
  "sort_by_score xs = foldr insert_by_score xs []"

definition strs :: "string list \<Rightarrow> json" where
  "strs xs = JArr (map JStr xs)"

definition property_json :: "property \<Rightarrow> json" where
  "property_json prop =
     JObj
       ([(''id'', JStr (id_p prop)), (''title'', JStr (title prop)), (''price'', JNum (price prop)),
         (''priceType'', JStr (priceType prop)), (''bedrooms'', JNum (bedrooms prop)),
         (''bathrooms'', JNum (bathrooms prop)), (''area'', JNum (area prop))]
        @ (case areaUnit prop of None \<Rightarrow> [] | Some u \<Rightarrow> [(''areaUnit'', JStr u)])
        @ [(''location'', JStr (location prop)), (''amenities'', strs (amenities prop)),
           (''features'', strs (features prop)), (''match_score'', JNum (match_score prop)),
           (''property_age'', JStr (property_age prop)), (''floor'', JStr (floor_p prop))])"

definition criteria_json :: "criteria \<Rightarrow> json" where
  "criteria_json c =
     JObj
       ((case minPrice c of None \<Rightarrow> [] | Some n \<Rightarrow> [(''minPrice'', JNum n)])
        @ (case maxPrice c of None \<Rightarrow> [] | Some n \<Rightarrow> [(''maxPrice'', JNum n)])
        @ (case bedrooms_c c of None \<Rightarrow> [] | Some n \<Rightarrow> [(''bedrooms'', JNum n)])
        @ (case location_c c of None \<Rightarrow> [] | Some t \<Rightarrow> [(''location'', JStr t)])
        @ (case propertyType_c c of None \<Rightarrow> [] | Some t \<Rightarrow> [(''propertyType'', JStr t)])
        @ (case priceType_c c of None \<Rightarrow> [] | Some t \<Rightarrow> [(''priceType'', JStr t)]))"

definition filteredProperties :: "string \<Rightarrow> property list" where
  \<comment> \<open>the listings \<open>propertyDatabase\<close> keeps for a query, filtered and then sorted\<close>
  "filteredProperties query = sort_by_score (filter (keeps (parsePropertyQuery query)) mockProperties)"

definition propertyDatabase :: "'w env \<Rightarrow> string \<Rightarrow> 'w \<Rightarrow> ToolResult \<times> 'w" where
  \<comment> \<open>nothing in the \<open>try\<close> block throws, so the \<open>catch\<close> branch is never taken\<close>
  "propertyDatabase env query w0 =
     (let (startTime, w1) = date_now env w0;
          (endTime, w2) = date_now env w1
      in (\<lparr>success = True,
           data = JObj
             [(''query'', JStr query),
              (''total_found'', JNum (Fin (of_nat (length (filteredProperties query))))),
              (''properties'', JArr (map property_json (take 10 (filteredProperties query)))),
              (''search_criteria'', criteria_json (parsePropertyQuery query)),
              (''database_stats'', JObj
                 [(''total_properties'', JNum (Fin (of_nat (length mockProperties)))),
                  (''avg_rent_2bhk'', JNum (Fin 35000)),
                  (''avg_sale_price_land'', JNum (Fin 12000000)),
                  (''popular_areas'', strs [''Kupondole'', ''Pulchowk'', ''Baneshwor'', ''Thamel''])])],
           error = None,
           executionTime = Some (endTime - startTime)\<rparr>, w2))"


section \<open>The ReAct agent\<close>

text \<open>The class \<open>ReActAgent\<close> of the same module: the parser of a completion and the dispatcher.\<close>

datatype step_type = Thought | Action | Observation

record ReActStep =
  type :: step_type
  content :: string
  actionName :: "string option"
  actionInput :: "string option"
  timestamp :: int
  toolResult :: "ToolResult option"

record ReActResponse =
  steps :: "ReActStep list"
  finalAnswer :: string
  isComplete :: bool
  needsClarification :: bool

definition run_tool :: "'w env \<Rightarrow> string \<Rightarrow> string \<Rightarrow> 'w \<Rightarrow> ToolResult \<times> 'w" where
  \<comment> \<open>the \<open>switch\<close> of \<open>executeToolAsync\<close>\<close>
  "run_tool env name input w =
     (if toLowerCase name = ''search'' then search env input w
      else if toLowerCase name = ''maps'' then maps env input w
      else if toLowerCase name = ''calculator'' then calculator env input w
      else if toLowerCase name = ''marketanalysis'' then marketAnalysis env input w
      else if toLowerCase name = ''propertydatabase'' then propertyDatabase env input w
      else if toLowerCase name = ''clarify'' then (clarify input, w)
      else (\<lparr>success = False,
             data = JNull,
             error = Some (''Unknown tool: '' @ name),
             executionTime = Some 0\<rparr>, w))"

definition observationContent :: "'w env \<Rightarrow> ToolResult \<Rightarrow> string" where
  "observationContent env result =
     (if success result
      then ''Tool executed successfully in ''
           @ (case executionTime result of Some t \<Rightarrow> show_int t | None \<Rightarrow> ''undefined'')
           @ ''ms. Result: '' @ JSON_stringify env (data result)
      else ''Tool execution failed: ''
           @ (case error result of Some e \<Rightarrow> e | None \<Rightarrow> ''undefined''))"

text \<open>
  \<open>executeToolAsync(step)\<close> is handed a reference to an element of \<open>this.steps\<close>: here the
  index \<open>i\<close> of that element. The tools catch what their collaborators throw and the
  tool data is JSON, so the outer \<open>catch\<close> of \<open>executeToolAsync\<close> is never entered.
\<close>

definition executeToolAsync :: "'w env \<Rightarrow> nat \<Rightarrow> ReActStep list \<Rightarrow> 'w \<Rightarrow> ReActStep list \<times> 'w" where
  "executeToolAsync env i steps0 w =
     (if length steps0 \<le> i then (steps0, w)
      else
        (case (actionName (steps0 ! i), actionInput (steps0 ! i)) of
           (Some name, Some input) \<Rightarrow>
             if name = [] \<or> input = [] then (steps0, w)
             else
               (let (result, w1) = run_tool env name input w;
                    steps1 = steps0[i := (steps0 ! i)\<lparr>toolResult := Some result\<rparr>];
                    (now, w2) = date_now env w1
                in (steps1 @
                    [\<lparr>type = Observation,
                      content = observationContent env result,
                      actionName = None,
                      actionInput = None,
                      timestamp = now,
                      toolResult = Some result\<rparr>], w2))
         | _ \<Rightarrow> (steps0, w)))"

definition isClarifyingQuestion :: "string \<Rightarrow> bool" where
  \<comment> \<open>the condition under which the \<open>Final Answer:\<close> branch sets \<open>needsClarification\<close>\<close>
  "isClarifyingQuestion answer =
     (str_includes answer ''?'' \<and>
      (str_includes (toLowerCase answer) ''could you'' \<or>
       str_includes (toLowerCase answer) ''please tell me'' \<or>
       str_includes (toLowerCase answer) ''what kind of'' \<or>
       str_includes (toLowerCase answer) ''more details'' \<or>
       str_includes (toLowerCase answer) ''help me'' \<or>
       str_includes (toLowerCase answer) ''tell me more''))"

text \<open>The variables of the parsing loop: \<open>this.steps\<close>, \<open>currentStep\<close> (an index into it),
  \<open>finalAnswer\<close>, \<open>needsClarification\<close>, and the world.\<close>

record 'w parse_state =
  steps_s :: "ReActStep list"
  currentStep :: "nat option"
  finalAnswer_s :: string
  needsClarification_s :: bool
  world :: 'w

definition parse_line :: "'w env \<Rightarrow> string \<Rightarrow> 'w parse_state \<Rightarrow> 'w parse_state" where
  \<comment> \<open>the body of the \<open>for\<close> loop of \<open>parseReActResponse\<close>\<close>
  "parse_line env line st =
     (let trimmedLine = trim line
      in if startsWith trimmedLine ''Thought:'' then
           (let (now, w1) = date_now env (world st)
            in st\<lparr>steps_s := steps_s st @
                     [\<lparr>type = Thought,
                       content = trim (substring trimmedLine 8),
                       actionName = None,
                       actionInput = None,
                       timestamp = now,
                       toolResult = None\<rparr>],
                   world := w1\<rparr>)
         else if startsWith trimmedLine ''Action:'' then
           (let name = trim (substring trimmedLine 7);
                (now, w1) = date_now env (world st)
            in st\<lparr>steps_s := steps_s st @
                     [\<lparr>type = Action,
                       content = ''Action: '' @ name,
                       actionName = Some name,
                       actionInput = None,
                       timestamp = now,
                       toolResult = None\<rparr>],
                   currentStep := Some (length (steps_s st)),
                   world := w1\<rparr>)
         else if startsWith trimmedLine ''Action Input:'' then
           (let input = trim (substring trimmedLine 13)
            in (case currentStep st of
                  None \<Rightarrow> st
                | Some i \<Rightarrow>
                    if length (steps_s st) \<le> i \<or> type (steps_s st ! i) \<noteq> Action then st
                    else
                      (let step = (steps_s st ! i)
                             \<lparr>actionInput := Some input,
                              content := content (steps_s st ! i) @ [CHR 0x0A] @ ''Action Input: '' @ input\<rparr>;
                           (steps1, w1) = executeToolAsync env i ((steps_s st)[i := step]) (world st)
                       in st\<lparr>steps_s := steps1, world := w1\<rparr>)))
         else if startsWith trimmedLine ''Observation:'' then st
         else if startsWith trimmedLine ''Final Answer:'' then
           st\<lparr>finalAnswer_s := trim (substring trimmedLine 13),
              needsClarification_s :=
                (needsClarification_s st \<or> isClarifyingQuestion (trim (substring trimmedLine 13)))\<rparr>
         else st)"

fun parse_lines :: "'w env \<Rightarrow> string list \<Rightarrow> 'w parse_state \<Rightarrow> 'w parse_state" where
  "parse_lines env [] st = st"
| "parse_lines env (line # rest) st = parse_lines env rest (parse_line env line st)"

definition final_answer_re :: regex where
  \<comment> \<open>\<open>/Final Answer:\s*([\s\S]+?)(?:\n\n|\n$|$)/i\<close>\<close>
  "final_answer_re =
     Cat [Lit ''Final Answer:'', Star space, Grp 1 (LazyPlus (Cls [CSpace, CNonSpace])),
          AltL [Lit [CHR 0x0A, CHR 0x0A], Cat [Chr (CHR 0x0A), EndAnchor], EndAnchor]]"

definition response_lines :: "string \<Rightarrow> string list" where
  \<comment> \<open>\<open>response.split('\n').filter(line => line.trim())\<close>\<close>
  "response_lines response = filter (\<lambda>line. trim line \<noteq> []) (split_nl response)"

definition recoveredAnswer :: "string \<Rightarrow> string" where
  \<comment> \<open>the fallback for an empty \<open>finalAnswer\<close>: the trimmed first group of the match, or still empty\<close>
  "recoveredAnswer response =
     (case str_match True final_answer_re response of
        None \<Rightarrow> []
      | Some g \<Rightarrow> (case g 1 of None \<Rightarrow> [] | Some t \<Rightarrow> trim t))"

definition parseReActResponse ::
  "'w env \<Rightarrow> string \<Rightarrow> ReActStep list \<Rightarrow> 'w \<Rightarrow> ReActResponse \<times> 'w" where
  \<comment> \<open>\<open>steps0\<close> is \<open>this.steps\<close> at the call; \<open>processQuery\<close> has emptied it\<close>
  "parseReActResponse env response steps0 w0 =
     (let st = parse_lines env (response_lines response)
                 \<lparr>steps_s = steps0, currentStep = None, finalAnswer_s = [],
                  needsClarification_s = False, world = w0\<rparr>;
          answer = (if finalAnswer_s st = [] then recoveredAnswer response else finalAnswer_s st)
      in (\<lparr>steps = steps_s st,
           finalAnswer =
             (if answer = [] then ''I need more information to provide a helpful response.'' else answer),
           isComplete = True,
           needsClarification = needsClarification_s st\<rparr>, world st))"


section \<open>The memory manager\<close>

text \<open>
  The class \<open>MemoryManager\<close> of the module \<open>memory-manager\<close>, which the agent imports: the
  context handed to the prompt, and the extraction of preferences from a user message.
\<close>

datatype role = User | Assistant | System

record ConversationMessage =
  id_m :: string
  role :: role
  content_m :: string
  timestamp_m :: int
  metadata :: "json option"

record ConversationSession =
  id_s :: string
  userId :: string
  title_s :: string
  messages :: "ConversationMessage list"
  lastActivity :: int
  createdAt :: int
  updatedAt :: int

text \<open>
  The token estimate of a message is \<open>content.length / 4\<close>, a multiple of a quarter, and
  the sums of such estimates are exact in binary64, so the running total is a rational.
\<close>

definition messageTokens :: "ConversationMessage \<Rightarrow> rat" where
  "messageTokens m = of_nat (length (content_m m)) / 4"

definition maxTokensEstimate :: rat where
  "maxTokensEstimate = 8000"

fun add_recent :: "rat \<Rightarrow> ConversationMessage list \<Rightarrow> ConversationMessage list \<Rightarrow> ConversationMessage list" where
  \<comment> \<open>the \<open>for\<close> loop of \<open>optimizeMessagesForContext\<close>: \<open>totalTokens\<close>, the messages still to
      visit, \<open>optimizedMessages\<close>; \<open>break\<close> returns what has been collected, \<open>unshift\<close> adds in front\<close>
  "add_recent totalTokens [] optimizedMessages = optimizedMessages"
| "add_recent totalTokens (message # rest) optimizedMessages =
     (if totalTokens + messageTokens message > maxTokensEstimate then optimizedMessages
      else add_recent (totalTokens + messageTokens message) rest (message # optimizedMessages))"

definition optimizeMessagesForContext :: "ConversationMessage list \<Rightarrow> ConversationMessage list" where
  "optimizeMessagesForContext msgs =
     (let systemMessages = filter (\<lambda>m. role m = System) msgs;
          totalTokens = foldl (\<lambda>sum m. sum + messageTokens m) 0 systemMessages;
          otherMessages = rev (filter (\<lambda>m. role m \<noteq> System) msgs)
      in add_recent totalTokens otherMessages systemMessages)"

definition getConversationContext :: "ConversationSession option \<Rightarrow> ConversationMessage list" where
  "getConversationContext currentSession =
     (case currentSession of
        None \<Rightarrow> []
      | Some session \<Rightarrow> optimizeMessagesForContext (messages session))"

datatype communication_style = Detailed | Concise | Technical

datatype lang = En | Ne

record priceRange_t =
  min_p :: jsnum
  max_p :: jsnum

record UserPreferences =
  id_u :: string
  userId_u :: string
  propertyType :: "string list option"
  priceRange :: "priceRange_t option"
  locations :: "string list option"
  bedrooms_u :: "jsnum option"
  amenities_u :: "string list option"
  searchHistory :: "string list option"
  viewedProperties :: "string list option"
  favoriteProperties :: "string list option"
  communicationStyle :: "communication_style option"
  language :: "lang option"
  updatedAt_u :: int

text \<open>The \<open>Partial<UserPreferences>\<close> that preference extraction fills: the four keys it can set.\<close>

record updates =
  priceRange_up :: "priceRange_t option"
  bedrooms_up :: "jsnum option"
  locations_up :: "string list option"
  propertyType_up :: "string list option"

definition no_updates :: updates where
  "no_updates = \<lparr>priceRange_up = None, bedrooms_up = None, locations_up = None, propertyType_up = None\<rparr>"

definition updateUserPreferences :: "updates \<Rightarrow> int \<Rightarrow> UserPreferences \<Rightarrow> UserPreferences" where
  \<comment> \<open>\<open>{...this.userPreferences, ...updates, updatedAt: Date.now()}\<close>; the write to the
      database that follows is caught when it fails and leaves this record as it is\<close>
  "updateUserPreferences up now prefs =
     prefs\<lparr>priceRange := (case priceRange_up up of None \<Rightarrow> priceRange prefs | Some r \<Rightarrow> Some r),
           bedrooms_u := (case bedrooms_up up of None \<Rightarrow> bedrooms_u prefs | Some b \<Rightarrow> Some b),
           locations := (case locations_up up of None \<Rightarrow> locations prefs | Some l \<Rightarrow> Some l),
           propertyType := (case propertyType_up up of None \<Rightarrow> propertyType prefs | Some t \<Rightarrow> Some t),
           updatedAt_u := now\<rparr>"

definition pref_budget_re :: regex where
  \<comment> \<open>\<open>/(?:under|below|maximum|max|budget|afford)\s*(?:npr|rs)?\s*([0-9,]+)/i\<close>\<close>
  "pref_budget_re =
     Cat [AltL [Lit ''under'', Lit ''below'', Lit ''maximum'', Lit ''max'', Lit ''budget'', Lit ''afford''],
          Star space, Opt (AltL [Lit ''npr'', Lit ''rs'']), Star space,
          Grp 1 (Plus (Cls [CRange (CHR ''0'') (CHR ''9''), CChar (CHR '','')]))]"

definition pref_bedroom_re :: regex where
  \<comment> \<open>\<open>/(\d+)\s*(?:bed|bedroom|bhk)/i\<close>\<close>
  "pref_bedroom_re =
     Cat [Grp 1 (Plus digit), Star space, AltL [Lit ''bed'', Lit ''bedroom'', Lit ''bhk'']]"

definition min_or_zero :: "UserPreferences \<Rightarrow> jsnum" where
  \<comment> \<open>\<open>this.userPreferences.priceRange?.min || 0\<close>\<close>
  "min_or_zero prefs =
     (case priceRange prefs of
        None \<Rightarrow> Fin 0
      | Some r \<Rightarrow> if num_truthy (min_p r) then min_p r else Fin 0)"

definition dedupe :: "string list \<Rightarrow> string list" where
  \<comment> \<open>\<open>[...new Set(xs)]\<close>: the first occurrence of each element, in order\<close>
  "dedupe xs = rev (remdups (rev xs))"

definition or_nil :: "string list option \<Rightarrow> string list" where
  \<comment> \<open>\<open>xs || []\<close>\<close>
  "or_nil xs = (case xs of None \<Rightarrow> [] | Some ys \<Rightarrow> ys)"

definition extractUpdates :: "string \<Rightarrow> UserPreferences \<Rightarrow> updates" where
  \<comment> \<open>the \<open>updates\<close> object that \<open>extractAndUpdatePreferences\<close> builds from a user message\<close>
  "extractUpdates userMessage prefs =
     (let message = toLowerCase userMessage;
          u1 = (case str_match True pref_budget_re message of
                  None \<Rightarrow> no_updates
                | Some g \<Rightarrow>
                    (case g 1 of
                       None \<Rightarrow> no_updates
                     | Some g1 \<Rightarrow>
                         no_updates\<lparr>priceRange_up :=
                           Some \<lparr>min_p = min_or_zero prefs, max_p = parseInt (remove_commas g1)\<rparr>\<rparr>));
          u2 = (case str_match True pref_bedroom_re message of
                  None \<Rightarrow> u1
                | Some g \<Rightarrow> (case g 1 of None \<Rightarrow> u1 | Some g1 \<Rightarrow> u1\<lparr>bedrooms_up := Some (parseInt g1)\<rparr>));
          mentionedLocations =
            filter (\<lambda>loc. str_includes message loc)
              [''kathmandu'', ''lalitpur'', ''bhaktapur'', ''pokhara'', ''chitwan'', ''butwal''];
          u3 = (if mentionedLocations \<noteq> []
                then u2\<lparr>locations_up := Some (dedupe (or_nil (locations prefs) @ mentionedLocations))\<rparr>
                else u2);
          mentionedTypes =
            filter (\<lambda>t. str_includes message t)
              [''apartment'', ''house'', ''flat'', ''villa'', ''studio'', ''penthouse'']
      in if mentionedTypes \<noteq> []
         then u3\<lparr>propertyType_up := Some (dedupe (or_nil (propertyType prefs) @ mentionedTypes))\<rparr>
         else u3)"

definition extractAndUpdatePreferences ::
  "string \<Rightarrow> int \<Rightarrow> UserPreferences option \<Rightarrow> UserPreferences option" where
  \<comment> \<open>\<open>this.userPreferences\<close> after the call; \<open>now\<close> is what \<open>Date.now()\<close> returns in \<open>updateUserPreferences\<close>\<close>
  "extractAndUpdatePreferences userMessage now userPreferences =
     (case userPreferences of
        None \<Rightarrow> None
      | Some prefs \<Rightarrow>
          (let up = extractUpdates userMessage prefs
           in if up = no_updates then Some prefs
              else Some (updateUserPreferences up now prefs)))"


subsection \<open>The budget block of the other revision\<close>

text \<open>
  The repository holds a second revision of the memory manager. Its
  \<open>extractAndUpdatePreferences\<close> extracts the budget with a list of patterns, tried in
  order until one matches, and keeps the amount only above a threshold
  (\<open>if (budget > 1000)\<close>, "reasonable budget threshold"). Only that block of the
  function writes \<open>updates.priceRange\<close>.
\<close>

definition LazyOpt :: "regex \<Rightarrow> regex" where "LazyOpt r = Alt Eps r"

definition amount :: regex where
  \<comment> \<open>\<open>[0-9,]+\<close>\<close>
  "amount = Plus (Cls [CRange (CHR ''0'') (CHR ''9''), CChar (CHR '','')])"

definition budgetPatterns :: "regex list" where
  \<comment> \<open>\<open>/(?:under|below|maximum|max|budget|afford)\s*(?:npr|rs)?\s*([0-9,]+)/i\<close>,
      \<open>/(?:npr|rs)\s*([0-9,]+)(?:\s*(?:per|\/)??\s*month)?/i\<close>,
      \<open>/([0-9,]+)\s*(?:npr|rupees?|rs)/i\<close>,
      \<open>/budget\s*(?:of|is|around)?\s*([0-9,]+)/i\<close>\<close>
  "budgetPatterns =
     [pref_budget_re,
      Cat [AltL [Lit ''npr'', Lit ''rs''], Star space, Grp 1 amount,
           Opt (Cat [Star space, LazyOpt (AltL [Lit ''per'', Lit ''/'']), Star space, Lit ''month''])],
      Cat [Grp 1 amount, Star space,
           AltL [Lit ''npr'', Cat [Lit ''rupee'', Opt (Chr (CHR ''s''))], Lit ''rs'']],
      Cat [Lit ''budget'', Star space, Opt (AltL [Lit ''of'', Lit ''is'', Lit ''around'']), Star space,
           Grp 1 amount]]"

fun first_budget :: "regex list \<Rightarrow> string \<Rightarrow> jsnum option" where
  \<comment> \<open>the loop over the patterns: the amount of the first pattern that matches\<close>
  "first_budget [] message = None"
| "first_budget (pattern # rest) message =
     (case str_match True pattern message of
        None \<Rightarrow> first_budget rest message
      | Some g \<Rightarrow> (case g 1 of None \<Rightarrow> None | Some g1 \<Rightarrow> Some (parseInt (remove_commas g1))))"

definition budget_update_v2 :: "string \<Rightarrow> UserPreferences \<Rightarrow> priceRange_t option" where
  \<comment> \<open>\<open>updates.priceRange\<close> after the budget block of the other revision\<close>
  "budget_update_v2 userMessage prefs =
     (case first_budget budgetPatterns (toLowerCase userMessage) of
        None \<Rightarrow> None
      | Some budget \<Rightarrow>
          if js_gt budget (Fin 1000) then Some \<lparr>min_p = min_or_zero prefs, max_p = budget\<rparr>
          else None)"

section \<open>Notions used to state the properties\<close>

definition failure_shape :: "ToolResult \<Rightarrow> bool" where
  \<comment> \<open>a failed result carries no data and a non-empty error\<close>
  "failure_shape r =
     (\<not> success r \<longrightarrow> data r = JNull \<and> (case error r of None \<Rightarrow> False | Some e \<Rightarrow> e \<noteq> []))"

definition tool_names :: "string list" where
  "tool_names = [''search'', ''maps'', ''calculator'', ''marketanalysis'', ''propertydatabase'', ''clarify'']"

definition maps_call_failed :: "'w env \<Rightarrow> string \<Rightarrow> 'w \<Rightarrow> bool" where
  \<comment> \<open>the request of \<open>maps\<close> threw, or its response was not OK\<close>
  "maps_call_failed env query w =
     (case fst (fetch_maps env query (snd (date_now env w))) of
        Inl e \<Rightarrow> True
      | Inr response \<Rightarrow> \<not> ok response)"

definition json_keys :: "json \<Rightarrow> string list" where
  "json_keys j = (case j of JObj kvs \<Rightarrow> map fst kvs | _ \<Rightarrow> [])"

definition score :: "property \<Rightarrow> rat" where
  \<comment> \<open>the number that a finite \<open>match_score\<close> denotes\<close>
  "score p = (case match_score p of Fin r \<Rightarrow> r | _ \<Rightarrow> 0)"

definition json_field :: "json \<Rightarrow> string \<Rightarrow> json option" where
  "json_field j k = (case j of JObj kvs \<Rightarrow> map_of kvs k | _ \<Rightarrow> None)"

text \<open>The branch of the parsing loop that a line takes.\<close>

datatype line_kind = KThought | KAction | KInput | KObservation | KFinal | KOther

definition kind_of :: "string \<Rightarrow> line_kind" where
  "kind_of line =
     (if startsWith (trim line) ''Thought:'' then KThought
      else if startsWith (trim line) ''Action:'' then KAction
      else if startsWith (trim line) ''Action Input:'' then KInput
      else if startsWith (trim line) ''Observation:'' then KObservation
      else if startsWith (trim line) ''Final Answer:'' then KFinal
      else KOther)"

definition name_of :: "string \<Rightarrow> string" where
  \<comment> \<open>the tool name of an \<open>Action:\<close> line\<close>
  "name_of line = trim (substring (trim line) 7)"

definition input_of :: "string \<Rightarrow> string" where
  \<comment> \<open>the input of an \<open>Action Input:\<close> line\<close>
  "input_of line = trim (substring (trim line) 13)"

definition answer_of :: "string \<Rightarrow> string" where
  \<comment> \<open>the text of a \<open>Final Answer:\<close> line\<close>
  "answer_of line = trim (substring (trim line) 13)"

fun each_action_followed :: "string list \<Rightarrow> bool" where
  \<comment> \<open>each \<open>Action:\<close> line names a tool and is immediately followed by an \<open>Action Input:\<close> line
      with an input\<close>
  "each_action_followed [] = True"
| "each_action_followed (l # ls) =
     ((if kind_of l = KAction
       then name_of l \<noteq> [] \<and>
            (case ls of [] \<Rightarrow> False | l2 # rest \<Rightarrow> kind_of l2 = KInput \<and> input_of l2 \<noteq> [])
       else True) \<and>
      each_action_followed ls)"

fun well_formed_pairs :: "string list \<Rightarrow> bool" where
  \<comment> \<open>as \<open>each_action_followed\<close>, and each \<open>Action Input:\<close> line immediately follows an \<open>Action:\<close> line\<close>
  "well_formed_pairs [] = True"
| "well_formed_pairs [l] = (kind_of l \<noteq> KAction \<and> kind_of l \<noteq> KInput)"
| "well_formed_pairs (l # l2 # ls) =
     (if kind_of l = KAction
      then name_of l \<noteq> [] \<and> kind_of l2 = KInput \<and> input_of l2 \<noteq> [] \<and> well_formed_pairs ls
      else kind_of l \<noteq> KInput \<and> well_formed_pairs (l2 # ls))"

definition count_pairs :: "string list \<Rightarrow> nat" where
  \<comment> \<open>the number \<open>N\<close> of \<open>Action:\<close> lines\<close>
  "count_pairs ls = length (filter (\<lambda>l. kind_of l = KAction) ls)"

text \<open>
  The steps that the claim about well-formed pairs expects, written from its words:
  a thought step for each \<open>Thought:\<close> line; for each pair an action step and, right
  after it, one observation step, both carrying the result of running the named tool
  on the input in the world as it is then; nothing for any other line.
\<close>

fun expected_steps :: "'w env \<Rightarrow> string list \<Rightarrow> 'w \<Rightarrow> ReActStep list" where
  "expected_steps env [] w = []"
| "expected_steps env [l] w =
     (if kind_of l = KThought
      then [\<lparr>type = Thought, content = trim (substring (trim l) 8), actionName = None,
             actionInput = None, timestamp = fst (date_now env w), toolResult = None\<rparr>]
      else [])"
| "expected_steps env (l # l2 # ls) w =
     (if kind_of l = KAction then
        (let (t1, w1) = date_now env w;
             (result, w2) = run_tool env (name_of l) (input_of l2) w1;
             (t2, w3) = date_now env w2
         in \<lparr>type = Action,
             content = ''Action: '' @ name_of l @ [CHR 0x0A] @ ''Action Input: '' @ input_of l2,
             actionName = Some (name_of l), actionInput = Some (input_of l2),
             timestamp = t1, toolResult = Some result\<rparr>
            # \<lparr>type = Observation, content = observationContent env result,
               actionName = None, actionInput = None, timestamp = t2, toolResult = Some result\<rparr>
            # expected_steps env ls w3)
      else if kind_of l = KThought then
        (let (t1, w1) = date_now env w
         in \<lparr>type = Thought, content = trim (substring (trim l) 8), actionName = None,
             actionInput = None, timestamp = t1, toolResult = None\<rparr>
            # expected_steps env (l2 # ls) w1)
      else expected_steps env (l2 # ls) w)"

fun paired :: "ReActStep list \<Rightarrow> bool" where
  \<comment> \<open>each action step is immediately followed by one observation step with the same, present,
      tool result, and there is no other observation step\<close>
  "paired [] = True"
| "paired [s] = (type s = Thought)"
| "paired (s # s2 # ss) =
     (if type s = Action
      then type s2 = Observation \<and> toolResult s \<noteq> None \<and> toolResult s2 = toolResult s \<and> paired ss
      else type s = Thought \<and> paired (s2 # ss))"

definition loop_answer :: "string list \<Rightarrow> string" where
  \<comment> \<open>the text of the last \<open>Final Answer:\<close> line, empty when there is none\<close>
  "loop_answer ls =
     (if filter (\<lambda>l. kind_of l = KFinal) ls = [] then []
      else answer_of (last (filter (\<lambda>l. kind_of l = KFinal) ls)))"

definition same_trace :: "'w parse_state \<Rightarrow> 'w parse_state \<Rightarrow> bool" where
  \<comment> \<open>two loop states with the same steps, current step and world\<close>
  "same_trace st st' =
     (steps_s st = steps_s st' \<and> currentStep st = currentStep st' \<and> world st = world st')"

definition sum_tokens :: "ConversationMessage list \<Rightarrow> rat" where
  \<comment> \<open>the estimated token sum of a list of messages\<close>
  "sum_tokens ms = sum_list (map messageTokens ms)"

definition systemMessages :: "ConversationMessage list \<Rightarrow> ConversationMessage list" where
  "systemMessages msgs = filter (\<lambda>m. role m = System) msgs"

definition otherMessages :: "ConversationMessage list \<Rightarrow> ConversationMessage list" where
  "otherMessages msgs = filter (\<lambda>m. role m \<noteq> System) msgs"

definition demo_message :: "role \<Rightarrow> string \<Rightarrow> ConversationMessage" where
  "demo_message r c = \<lparr>id_m = ''msg_1'', role = r, content_m = c, timestamp_m = 0, metadata = None\<rparr>"

definition demo_session :: "ConversationMessage list \<Rightarrow> ConversationSession" where
  "demo_session msgs =
     \<lparr>id_s = ''session_1'', userId = ''user_1'', title_s = ''New Property Search'', messages = msgs,
      lastActivity = 0, createdAt = 0, updatedAt = 0\<rparr>"

definition demo_preferences :: UserPreferences where
  "demo_preferences =
     \<lparr>id_u = ''pref_user_1'', userId_u = ''user_1'', propertyType = Some [], priceRange = None,
      locations = Some [], bedrooms_u = None, amenities_u = Some [], searchHistory = Some [],
      viewedProperties = Some [], favoriteProperties = Some [],
      communicationStyle = Some Detailed, language = Some En, updatedAt_u = 0\<rparr>"

text \<open>
  A world for concrete runs: the world is the clock, each reading of it takes a
  millisecond, and every collaborator is out of reach.
\<close>

definition offline_env :: "int env" where
  "offline_env =
     \<lparr>date_now = (\<lambda>w. (w, w + 1)),
      data_search = (\<lambda>q w. (Inl (Some ''offline''), w)),
      fetch_maps = (\<lambda>q w. (Inl (Some ''offline''), w)),
      generateObject = (\<lambda>q w. (Inl (Some ''offline''), w)),
      generateText = (\<lambda>q w. (Inl (Some ''offline''), w)),
      eval_function = (\<lambda>b. Inl (Some ''Unexpected end of input'')),
      toLocaleString = (\<lambda>n. ''20''),
      JSON_stringify = (\<lambda>j. ''null'')\<rparr>"

section \<open>Evaluation lemmas\<close>

lemmas char_eval = lower_char_def upper_char_def char_of_def bit_0

lemma floor_rat_numeral_div: "\<lfloor>numeral a / numeral b :: rat\<rfloor> = numeral a div numeral b"
  using floor_divide_of_int_eq [of "numeral a" "numeral b", where ?'a = rat] by simp

lemma ceiling_rat_numeral_div: "\<lceil>numeral a / numeral b :: rat\<rceil> = - ((- numeral a) div numeral b)"
  using floor_divide_of_int_eq [of "- numeral a" "numeral b", where ?'a = rat]
  by (simp add: ceiling_def)

lemma bit_length_numeral: "bit_length (numeral n) = Suc (bit_length (numeral n div 2))"
  by (simp add: bit_length.simps)

lemma bit_length_0: "bit_length 0 = 0"
  by (simp add: bit_length.simps)

lemma bit_length_1: "bit_length (Suc 0) = 1"
  by (simp add: bit_length.simps)

lemmas fl_eval = fl_def ilog2_def bit_length_numeral bit_length_0 bit_length_1 pow2_def
  round_half_even_def Let_def floor_rat_numeral_div ceiling_rat_numeral_div

lemmas regex_eval = Cat_def AltL_def Lit_def Chr_def Plus_def LazyPlus_def Opt_def digit_def
  space_def exec_at_def in_range_def is_ws_def

lemmas number_eval = parseFloat_def parseInt_def is_digit_def in_range_def digits_val_def
  remove_commas_def

lemma toLowerCase_Nil [simp]: "toLowerCase [] = []"
  by (simp add: toLowerCase_def)

lemma toLowerCase_Cons [simp]: "toLowerCase (c # cs) = lower_char c # toLowerCase cs"
  by (simp add: toLowerCase_def)

section \<open>The tool dispatcher\<close>

lemma search_shape: "failure_shape (fst (search env input w))"
  by (simp add: search_def failure_shape_def split: prod.splits sum.splits)

lemma maps_success: "success (fst (maps env input w))"
  by (simp add: maps_def split: prod.splits)

lemma calculator_shape: "failure_shape (fst (calculator env input w))"
  by (simp add: calculator_def failure_shape_def Let_def split: prod.splits sum.splits evalres.splits)

lemma marketAnalysis_shape: "failure_shape (fst (marketAnalysis env input w))"
  by (simp add: marketAnalysis_def failure_shape_def Let_def split: prod.splits sum.splits)

lemma propertyDatabase_success: "success (fst (propertyDatabase env input w))"
  by (simp add: propertyDatabase_def split: prod.splits)

lemma clarify_success: "success (clarify input)"
  by (simp add: clarify_def)

lemma unknown_tool_shape:
  "failure_shape \<lparr>success = False, data = JNull, error = Some (''Unknown tool: '' @ name), executionTime = Some 0\<rparr>"
  by (simp add: failure_shape_def)

text \<open>
  The converse does not hold: when the maps endpoint answers with the body \<open>null\<close>, the
  result succeeds with \<open>data = null\<close>.
\<close>

lemma maps_success_with_null_data:
  assumes "fetch_maps env query (snd (date_now env w)) =
             (Inr \<lparr>ok = True, statusText = ''OK'', json_body = Inr JNull\<rparr>, w')"
  shows "success (fst (maps env query w)) \<and> data (fst (maps env query w)) = JNull"
proof -
  obtain t0 w1 where clock: "date_now env w = (t0, w1)"
    by (cases "date_now env w")
  with assms show ?thesis
    by (simp add: maps_def split: prod.splits)
qed

text \<open>
  C2. Whatever the collaborators do and whatever the input is, a result with
  \<open>success = false\<close> has \<open>data = null\<close> and a non-empty \<open>error\<close>: for each of the six
  tools, and for the dispatcher as a whole, which adds the unknown-tool branch.
\<close>

theorem tool_failure_shape:
  "failure_shape (fst (search env input w)) \<and>
   failure_shape (fst (maps env input w)) \<and>
   failure_shape (fst (calculator env input w)) \<and>
   failure_shape (fst (marketAnalysis env input w)) \<and>
   failure_shape (fst (propertyDatabase env input w)) \<and>
   failure_shape (clarify input) \<and>
   failure_shape (fst (run_tool env name input w))"
proof -
  have tools:
    "failure_shape (fst (maps env input w))"
    "failure_shape (fst (propertyDatabase env input w))"
    "failure_shape (clarify input)"
    using maps_success [of env input w] propertyDatabase_success [of env input w]
      clarify_success [of input]
    by (simp_all add: failure_shape_def)
  have "failure_shape (fst (run_tool env name input w))"
    using tools search_shape [of env input w] calculator_shape [of env input w]
      marketAnalysis_shape [of env input w] unknown_tool_shape [of name]
    by (simp add: run_tool_def)
  with tools show ?thesis
    by (simp add: search_shape calculator_shape marketAnalysis_shape)
qed

theorem tool_failure_shape_witness:
  "\<not> success (fst (run_tool offline_env ''Search'' ''rent in Thamel'' 0)) \<and>
   data (fst (run_tool offline_env ''Search'' ''rent in Thamel'' 0)) = JNull \<and>
   error (fst (run_tool offline_env ''Search'' ''rent in Thamel'' 0)) = Some ''Search failed: offline''"
  using tool_failure_shape [of offline_env "''rent in Thamel''" 0 "''Search''"]
  by (simp add: run_tool_def search_def offline_env_def char_eval error_message_def)




text \<open>
  C10, as stated, fails: \<open>executeToolAsync\<close> returns at once when the step has no action
  name or no action input. The completion
  \<^verbatim>\<open>Action: Foo\<close> / \<^verbatim>\<open>Action Input:\<close> leaves an action step for the unknown tool \<open>Foo\<close> with no
  tool result, and no observation step follows it.
\<close>

theorem unknown_tool_counterexample:
  "toLowerCase ''Foo'' \<notin> set tool_names \<and>
   executeToolAsync offline_env 0
     [\<lparr>type = Action, content = ''Action: Foo'' @ [CHR 0x0A] @ ''Action Input: '',
       actionName = Some ''Foo'', actionInput = Some [], timestamp = 0, toolResult = None\<rparr>] 0 =
     ([\<lparr>type = Action, content = ''Action: Foo'' @ [CHR 0x0A] @ ''Action Input: '',
        actionName = Some ''Foo'', actionInput = Some [], timestamp = 0, toolResult = None\<rparr>], 0) \<and>
   steps (fst (parseReActResponse offline_env (''Action: Foo'' @ [CHR 0x0A] @ ''Action Input:'') [] 0)) =
     [\<lparr>type = Action, content = ''Action: Foo'' @ [CHR 0x0A] @ ''Action Input: '',
       actionName = Some ''Foo'', actionInput = Some [], timestamp = 0, toolResult = None\<rparr>]"
  by (simp add: tool_names_def char_eval executeToolAsync_def parseReActResponse_def
      response_lines_def parse_line_def trim_def is_ws_def startsWith_def substring_def
      offline_env_def Let_def)

text \<open>
  C10, amended. For an action step with a non-empty action name and a non-empty
  action input whose name, in lower case, is none of the six tool names, the dispatch
  attaches to the step the result \<open>success = false\<close>, \<open>data = null\<close>,
  \<open>executionTime = 0\<close>, \<open>error = 'Unknown tool: ' + actionName\<close>, and appends an observation
  step that records the failure and carries the same result. Nothing is thrown.
\<close>

theorem unknown_tool_dispatch:
  assumes "i < length ss"
    and "actionName (ss ! i) = Some name" and "name \<noteq> []"
    and "actionInput (ss ! i) = Some input" and "input \<noteq> []"
    and "toLowerCase name \<notin> set tool_names"
  shows "executeToolAsync env i ss w =
     (ss[i := (ss ! i)\<lparr>toolResult :=
               Some \<lparr>success = False, data = JNull,
                     error = Some (''Unknown tool: '' @ name), executionTime = Some 0\<rparr>\<rparr>]
      @ [\<lparr>type = Observation,
          content = ''Tool execution failed: Unknown tool: '' @ name,
          actionName = None, actionInput = None,
          timestamp = fst (date_now env w),
          toolResult =
            Some \<lparr>success = False, data = JNull,
                  error = Some (''Unknown tool: '' @ name), executionTime = Some 0\<rparr>\<rparr>],
      snd (date_now env w))"
  using assms
  by (simp add: executeToolAsync_def run_tool_def tool_names_def observationContent_def
      split: prod.splits)

theorem unknown_tool_dispatch_witness:
  "executeToolAsync offline_env 0
     [\<lparr>type = Action, content = ''Action: Foo'' @ [CHR 0x0A] @ ''Action Input: x'',
       actionName = Some ''Foo'', actionInput = Some ''x'', timestamp = 0, toolResult = None\<rparr>] 1 =
     ([\<lparr>type = Action, content = ''Action: Foo'' @ [CHR 0x0A] @ ''Action Input: x'',
        actionName = Some ''Foo'', actionInput = Some ''x'', timestamp = 0,
        toolResult = Some \<lparr>success = False, data = JNull,
                            error = Some ''Unknown tool: Foo'', executionTime = Some 0\<rparr>\<rparr>,
       \<lparr>type = Observation, content = ''Tool execution failed: Unknown tool: Foo'',
        actionName = None, actionInput = None, timestamp = 1,
        toolResult = Some \<lparr>success = False, data = JNull,
                            error = Some ''Unknown tool: Foo'', executionTime = Some 0\<rparr>\<rparr>], 2)"
  using unknown_tool_dispatch [of 0
      "[\<lparr>type = Action, content = ''Action: Foo'' @ [CHR 0x0A] @ ''Action Input: x'',
         actionName = Some ''Foo'', actionInput = Some ''x'', timestamp = 0, toolResult = None\<rparr>]"
      "''Foo''" "''x''" offline_env 1]
  by (simp add: tool_names_def char_eval offline_env_def)


section \<open>The calculator\<close>

lemma roi_numbers:
  "str_match_all (Grp 1 number_re) ''ROI of gain 1200000 cost 1000000'' = [''1200000'', ''1000000'']"
  by (simp add: number_re_def regex_eval)

lemma roi_gain: "parseFloat (remove_commas ''1200000'') = Fin 1200000"
  by (simp add: number_eval fl_eval)

lemma roi_cost: "parseFloat (remove_commas ''1000000'') = Fin 1000000"
  by (simp add: number_eval fl_eval)

lemma roi_value:
  "js_mul (js_div (js_sub (Fin 1200000) (Fin 1000000)) (Fin 1000000)) (Fin 100) = Fin 20"
  by (simp add: fl_eval)

lemma roi_keyword: "str_includes (toLowerCase ''ROI of gain 1200000 cost 1000000'') ''roi''"
  by (simp add: char_eval startsWith_def)

lemma roi_calculate:
  "calculate env ''ROI of gain 1200000 cost 1000000'' = Inr (ENumber (Fin 20), ''roi'')"
  unfolding calculate_def
  by (simp only: roi_keyword roi_numbers roi_gain roi_cost roi_value Let_def list.case if_True simp_thms)

text \<open>
  C5. On \<open>ROI of gain 1200000 cost 1000000\<close> the calculator succeeds: the quotient
  \<open>200000 / 1000000\<close> rounds to the binary64 value next to \<open>0.2\<close>, and its product with
  \<open>100\<close> rounds to exactly \<open>20\<close>. Since \<open>20 > 20\<close> is false and \<open>20 > 15\<close> is true, the
  interpretation is the one of the "good" band.
\<close>

theorem calculator_roi_boundary:
  "success (fst (calculator env ''ROI of gain 1200000 cost 1000000'' w)) \<and>
   data (fst (calculator env ''ROI of gain 1200000 cost 1000000'' w)) =
     JObj
       [(''expression'', JStr ''ROI of gain 1200000 cost 1000000''),
        (''result'', JNum (Fin 20)),
        (''formatted'', JStr (toLocaleString env (Fin 20))),
        (''calculation_type'', JStr ''roi''),
        (''interpretation'', JStr ''Good ROI - Solid investment opportunity'')] \<and>
   error (fst (calculator env ''ROI of gain 1200000 cost 1000000'' w)) = None \<and>
   \<not> js_gt (Fin 20) (Fin 20) \<and> js_gt (Fin 20) (Fin 15)"
  by (simp add: calculator_def roi_calculate interpretCalculationResult_def split: prod.splits)


section \<open>The property database\<close>

lemma scenario_price:
  "str_match True price_re ''Find me a 2BHK apartment in Kathmandu under NPR 30,000'' = None"
  by (simp add: str_match_def price_re_def number_re_def regex_eval char_eval)

lemma scenario_budget:
  "str_match True budget_re ''Find me a 2BHK apartment in Kathmandu under NPR 30,000'' = None"
  by (simp add: str_match_def budget_re_def number_re_def regex_eval char_eval)

lemma scenario_bedroom:
  "str_match True bedroom_re ''Find me a 2BHK apartment in Kathmandu under NPR 30,000'' =
     Some (map_of [(0, ''2BHK''), (1, ''2'')])"
  by (simp add: str_match_def bedroom_re_def regex_eval char_eval)

lemma scenario_location:
  "str_match True location_re ''Find me a 2BHK apartment in Kathmandu under NPR 30,000'' =
     Some (map_of [(0, ''in Kathmandu ''), (1, ''Kathmandu'')])"
  by (simp add: str_match_def location_re_def regex_eval char_eval)

lemma scenario_lower:
  "toLowerCase ''Find me a 2BHK apartment in Kathmandu under NPR 30,000'' =
     ''find me a 2bhk apartment in kathmandu under npr 30,000''"
  by (simp add: char_eval)

lemma parseInt_2: "parseInt ''2'' = Fin 2"
  by (simp add: number_eval fl_eval)

lemma trim_Kathmandu: "trim ''Kathmandu'' = ''Kathmandu''"
  by (simp add: trim_def is_ws_def)

lemma scenario_criteria:
  "parsePropertyQuery ''Find me a 2BHK apartment in Kathmandu under NPR 30,000'' =
     \<lparr>minPrice = None, maxPrice = None, bedrooms_c = Some (Fin 2),
      location_c = Some ''Kathmandu'', propertyType_c = Some ''apartment'', priceType_c = None\<rparr>"
  unfolding parsePropertyQuery_def scenario_price scenario_budget scenario_bedroom
    scenario_location scenario_lower
  by (simp add: set_prices_def no_criteria_def parseInt_2 trim_Kathmandu startsWith_def)

lemma scenario_filter:
  "filter (keeps \<lparr>minPrice = None, maxPrice = None, bedrooms_c = Some (Fin 2),
                  location_c = Some ''Kathmandu'', propertyType_c = Some ''apartment'',
                  priceType_c = None\<rparr>) mockProperties = []"
  by (simp add: mockProperties_def keeps_def num_and_def str_and_def startsWith_def char_eval)

lemma scenario_listings:
  "filteredProperties ''Find me a 2BHK apartment in Kathmandu under NPR 30,000'' = []"
  by (simp add: filteredProperties_def scenario_criteria scenario_filter sort_by_score_def)

text \<open>
  For every query the listings that the tool returns are listings of the corpus that
  pass the filter of the parsed criteria, in descending order of their score.
\<close>

lemma set_insert_by_score: "set (insert_by_score a bs) = insert a (set bs)"
  by (induction bs) auto

lemma set_sort_by_score: "set (sort_by_score xs) = set xs"
  by (induction xs) (simp_all add: sort_by_score_def set_insert_by_score)

lemma corpus_scores:
  "map match_score mockProperties =
     [Fin (8556839292003942 / 2 ^ 53), Fin (7926335344172073 / 2 ^ 53),
      Fin (7385903388887613 / 2 ^ 53), Fin (8106479329266893 / 2 ^ 53),
      Fin (7656119366529843 / 2 ^ 53)]"
  by (simp add: mockProperties_def fl_eval)

lemma corpus_compare:
  assumes "a \<in> set mockProperties" and "b \<in> set mockProperties"
  shows "js_gt (js_sub (match_score b) (match_score a)) (Fin 0) = (score a < score b)"
proof -
  have "match_score a \<in> set (map match_score mockProperties)"
    and "match_score b \<in> set (map match_score mockProperties)"
    using assms by simp_all
  then show ?thesis
    unfolding corpus_scores by (auto simp add: score_def fl_eval)
qed

lemma sorted_insert_by_score:
  assumes "a \<in> set mockProperties" and "set bs \<subseteq> set mockProperties"
    and "sorted_wrt (\<lambda>x y. score y \<le> score x) bs"
  shows "sorted_wrt (\<lambda>x y. score y \<le> score x) (insert_by_score a bs)"
  using assms
proof (induction bs)
  case Nil
  then show ?case by simp
next
  case (Cons b bs)
  then have cmp: "js_gt (js_sub (match_score b) (match_score a)) (Fin 0) = (score a < score b)"
    by (simp add: corpus_compare)
  show ?case
  proof (cases "score a < score b")
    case True
    with Cons cmp show ?thesis
      by (auto simp add: set_insert_by_score)
  next
    case False
    with Cons.prems cmp show ?thesis
      by auto
  qed
qed

lemma sorted_sort_by_score:
  "set xs \<subseteq> set mockProperties \<Longrightarrow> sorted_wrt (\<lambda>x y. score y \<le> score x) (sort_by_score xs)"
proof (induction xs)
  case Nil
  show ?case by (simp add: sort_by_score_def)
next
  case (Cons a xs)
  then have "sorted_wrt (\<lambda>x y. score y \<le> score x) (sort_by_score xs)" by simp
  with Cons.prems sorted_insert_by_score [of a "sort_by_score xs"] show ?case
    by (simp add: sort_by_score_def set_sort_by_score [unfolded sort_by_score_def])
qed

lemma listings_filtered_and_sorted:
  "set (filteredProperties query) \<subseteq> {p \<in> set mockProperties. keeps (parsePropertyQuery query) p} \<and>
   sorted_wrt (\<lambda>x y. score y \<le> score x) (filteredProperties query)"
  by (auto simp add: filteredProperties_def set_sort_by_score intro: sorted_sort_by_score)

text \<open>
  C4, as stated, fails: the price pattern wants the amount before \<open>NPR\<close> and the budget
  pattern wants the word \<open>budget\<close>, so \<open>under NPR 30,000\<close> sets no price bound.
\<close>

theorem scenario_maxPrice_counterexample:
  "maxPrice (parsePropertyQuery ''Find me a 2BHK apartment in Kathmandu under NPR 30,000'') = None \<and>
   maxPrice (parsePropertyQuery ''Find me a 2BHK apartment in Kathmandu under NPR 30,000'')
     \<noteq> Some (Fin 30000)"
  by (simp add: scenario_criteria)

text \<open>
  C4, amended. For that input the parser produces \<open>bedrooms = 2\<close>,
  \<open>location = 'Kathmandu'\<close> and \<open>propertyType = 'apartment'\<close>, and neither a price
  bound nor a price type. The tool succeeds and returns the corpus listings that
  pass these three filters, sorted by score: there are none, since no listing of the
  corpus has two bedrooms and a location that contains \<open>kathmandu\<close>.
\<close>

theorem scenario_property_search:
  "parsePropertyQuery ''Find me a 2BHK apartment in Kathmandu under NPR 30,000'' =
     \<lparr>minPrice = None, maxPrice = None, bedrooms_c = Some (Fin 2),
      location_c = Some ''Kathmandu'', propertyType_c = Some ''apartment'', priceType_c = None\<rparr> \<and>
   filteredProperties ''Find me a 2BHK apartment in Kathmandu under NPR 30,000'' = [] \<and>
   success (fst (propertyDatabase env ''Find me a 2BHK apartment in Kathmandu under NPR 30,000'' w)) \<and>
   json_field (data (fst (propertyDatabase env ''Find me a 2BHK apartment in Kathmandu under NPR 30,000'' w)))
     ''properties'' = Some (JArr []) \<and>
   json_field (data (fst (propertyDatabase env ''Find me a 2BHK apartment in Kathmandu under NPR 30,000'' w)))
     ''total_found'' = Some (JNum (Fin 0)) \<and>
   json_field (data (fst (propertyDatabase env ''Find me a 2BHK apartment in Kathmandu under NPR 30,000'' w)))
     ''search_criteria'' =
       Some (JObj [(''bedrooms'', JNum (Fin 2)), (''location'', JStr ''Kathmandu''),
                   (''propertyType'', JStr ''apartment'')])"
  by (simp add: propertyDatabase_def scenario_listings scenario_criteria json_field_def
      criteria_json_def split: prod.splits)


section \<open>The conversation context\<close>

lemma foldl_tokens: "foldl (\<lambda>sum m. sum + messageTokens m) a ms = a + sum_tokens ms"
  by (induction ms arbitrary: a) (simp_all add: sum_tokens_def add.assoc)

lemma sum_tokens_append [simp]: "sum_tokens (xs @ ys) = sum_tokens xs + sum_tokens ys"
  by (simp add: sum_tokens_def)

lemma sum_tokens_rev [simp]: "sum_tokens (rev xs) = sum_tokens xs"
  by (simp add: sum_tokens_def rev_map [symmetric])

lemma add_recent_shape:
  "\<exists>k \<le> length xs. add_recent t xs acc = rev (take k xs) @ acc \<and>
     (k = 0 \<or> t + sum_tokens (take k xs) \<le> maxTokensEstimate) \<and>
     (k < length xs \<longrightarrow> t + sum_tokens (take (Suc k) xs) > maxTokensEstimate)"
proof (induction xs arbitrary: t acc)
  case Nil
  then show ?case by simp
next
  case (Cons m ms)
  show ?case
  proof (cases "t + messageTokens m > maxTokensEstimate")
    case True
    then have "add_recent t (m # ms) acc = rev (take 0 (m # ms)) @ acc \<and>
      (t + sum_tokens (take (Suc 0) (m # ms)) > maxTokensEstimate)"
      by (simp add: sum_tokens_def)
    then show ?thesis by (intro exI [of _ 0]) simp
  next
    case False
    from Cons.IH [of "t + messageTokens m" "m # acc"] obtain k where k:
      "k \<le> length ms"
      "add_recent (t + messageTokens m) ms (m # acc) = rev (take k ms) @ m # acc"
      "k = 0 \<or> t + messageTokens m + sum_tokens (take k ms) \<le> maxTokensEstimate"
      "k < length ms \<longrightarrow> t + messageTokens m + sum_tokens (take (Suc k) ms) > maxTokensEstimate"
      by blast
    have "t + sum_tokens (take (Suc k) (m # ms)) \<le> maxTokensEstimate"
      using k(3) False by (auto simp add: sum_tokens_def add.assoc)
    moreover have "add_recent t (m # ms) acc = rev (take (Suc k) (m # ms)) @ acc"
      using False k(2) by simp
    moreover have "Suc k < length (m # ms) \<longrightarrow>
        t + sum_tokens (take (Suc (Suc k)) (m # ms)) > maxTokensEstimate"
      using k(4) by (simp add: sum_tokens_def add.assoc)
    ultimately show ?thesis
      using k(1) by (intro exI [of _ "Suc k"]) simp
  qed
qed

lemma optimize_shape:
  fixes msgs :: "ConversationMessage list"
  defines "sys \<equiv> filter (\<lambda>m. role m = System) msgs"
    and "others \<equiv> filter (\<lambda>m. role m \<noteq> System) msgs"
  shows "\<exists>n \<le> length others.
           optimizeMessagesForContext msgs = drop n others @ sys \<and>
           (n = length others \<or> sum_tokens (drop n others @ sys) \<le> maxTokensEstimate) \<and>
           (n = 0 \<or> sum_tokens (drop (n - 1) others @ sys) > maxTokensEstimate)"
proof -
  obtain k where k: "k \<le> length (rev others)"
    "add_recent (sum_tokens sys) (rev others) sys = rev (take k (rev others)) @ sys"
    "k = 0 \<or> sum_tokens sys + sum_tokens (take k (rev others)) \<le> maxTokensEstimate"
    "k < length (rev others) \<longrightarrow>
       sum_tokens sys + sum_tokens (take (Suc k) (rev others)) > maxTokensEstimate"
    using add_recent_shape [of "rev others" "sum_tokens sys" sys] by blast
  define n where "n = length others - k"
  have sel: "rev (take j (rev others)) = drop (length others - j) others" for j
    by (simp add: take_rev)
  have tok: "sum_tokens (take j (rev others)) = sum_tokens (drop (length others - j) others)" for j
    using sel [of j] sum_tokens_rev [of "take j (rev others)"] by simp
  have "optimizeMessagesForContext msgs = add_recent (sum_tokens sys) (rev others) sys"
    by (simp add: optimizeMessagesForContext_def foldl_tokens sys_def others_def Let_def)
  also have "\<dots> = rev (take k (rev others)) @ sys"
    by (rule k(2))
  also have "\<dots> = drop n others @ sys"
    by (simp only: sel n_def)
  finally have opt: "optimizeMessagesForContext msgs = drop n others @ sys" .
  have budget: "n = length others \<or> sum_tokens (drop n others @ sys) \<le> maxTokensEstimate"
    using k(1,3) by (auto simp add: tok n_def add.commute)
  have stop: "n = 0 \<or> sum_tokens (drop (n - 1) others @ sys) > maxTokensEstimate"
  proof (cases "n = 0")
    case False
    then have "k < length (rev others)" and "length others - Suc k = n - 1"
      using k(1) by (simp_all add: n_def)
    with k(4) tok [of "Suc k"] show ?thesis by (simp add: add.commute)
  qed simp
  have "n \<le> length others" by (simp add: n_def)
  with opt budget stop show ?thesis by blast
qed

lemma filter_system_drop_others:
  "filter (\<lambda>m. role m = System) (drop n (otherMessages msgs)) = []"
proof -
  have "set (drop n (otherMessages msgs)) \<subseteq> set (otherMessages msgs)"
    by (rule set_drop_subset)
  then show ?thesis
    by (auto simp add: otherMessages_def filter_empty_conv)
qed





section \<open>Preference extraction\<close>

lemma under_500_match:
  "str_match True pref_budget_re ''under 500'' = Some (map_of [(0, ''under 500''), (1, ''500'')])"
  by (simp add: str_match_def pref_budget_re_def regex_eval char_eval)

lemma under_500_bedroom: "str_match True pref_bedroom_re ''under 500'' = None"
  by (simp add: str_match_def pref_bedroom_re_def regex_eval char_eval)

lemma parseInt_500: "parseInt (remove_commas ''500'') = Fin 500"
  by (simp add: number_eval fl_eval)

lemma under_500_updates:
  "extractUpdates ''under 500'' prefs =
     no_updates\<lparr>priceRange_up := Some \<lparr>min_p = min_or_zero prefs, max_p = Fin 500\<rparr>\<rparr>"
  by (simp add: extractUpdates_def Let_def char_eval under_500_match under_500_bedroom
      parseInt_500 startsWith_def)

text \<open>
  C9 describes the revision with the threshold. In \<open>memory-manager.ts\<close> there is none:
  the message \<open>under 500\<close> stores a price range whose maximum is 500.
\<close>

theorem budget_below_threshold_is_stored:
  "extractAndUpdatePreferences ''under 500'' now (Some prefs) =
     Some (prefs\<lparr>priceRange := Some \<lparr>min_p = min_or_zero prefs, max_p = Fin 500\<rparr>,
                 updatedAt_u := now\<rparr>) \<and>
   priceRange demo_preferences = None \<and>
   map_option priceRange (extractAndUpdatePreferences ''under 500'' 1 (Some demo_preferences)) =
     Some (Some \<lparr>min_p = Fin 0, max_p = Fin 500\<rparr>) \<and>
   budget_update_v2 ''under 500'' demo_preferences = None"
proof -
  have "first_budget budgetPatterns ''under 500'' = Some (Fin 500)"
    by (simp add: budgetPatterns_def under_500_match parseInt_500)
  then have v2: "budget_update_v2 ''under 500'' demo_preferences = None"
    by (simp add: budget_update_v2_def char_eval)
  have "extractAndUpdatePreferences ''under 500'' now (Some p) =
     Some (p\<lparr>priceRange := Some \<lparr>min_p = min_or_zero p, max_p = Fin 500\<rparr>,
             updatedAt_u := now\<rparr>)" for p now
    by (simp add: extractAndUpdatePreferences_def under_500_updates no_updates_def
        updateUserPreferences_def)
  with v2 show ?thesis
    by (simp add: demo_preferences_def min_or_zero_def)
qed

text \<open>
  In the other revision the threshold is there: when the first pattern matches, the
  amount it captures is kept if and only if it is greater than 1000.
\<close>

lemma budget_threshold_v2:
  assumes "str_match True pref_budget_re (toLowerCase userMessage) = Some g"
    and "g 1 = Some g1"
  shows "budget_update_v2 userMessage prefs =
     (if js_gt (parseInt (remove_commas g1)) (Fin 1000)
      then Some \<lparr>min_p = min_or_zero prefs, max_p = parseInt (remove_commas g1)\<rparr>
      else None)"
  using assms by (simp add: budget_update_v2_def budgetPatterns_def)


section \<open>The trace parser\<close>

lemma parse_line_Thought:
  "kind_of l = KThought \<Longrightarrow>
   parse_line env l st =
     st\<lparr>steps_s := steps_s st @
          [\<lparr>type = Thought, content = trim (substring (trim l) 8), actionName = None,
            actionInput = None, timestamp = fst (date_now env (world st)), toolResult = None\<rparr>],
        world := snd (date_now env (world st))\<rparr>"
  by (simp add: kind_of_def parse_line_def Let_def split: if_splits prod.splits)

lemma parse_line_Action:
  "kind_of l = KAction \<Longrightarrow>
   parse_line env l st =
     st\<lparr>steps_s := steps_s st @
          [\<lparr>type = Action, content = ''Action: '' @ name_of l, actionName = Some (name_of l),
            actionInput = None, timestamp = fst (date_now env (world st)), toolResult = None\<rparr>],
        currentStep := Some (length (steps_s st)),
        world := snd (date_now env (world st))\<rparr>"
  by (simp add: kind_of_def parse_line_def name_of_def Let_def split: if_splits prod.splits)

lemma parse_line_Final:
  "kind_of l = KFinal \<Longrightarrow>
   parse_line env l st =
     st\<lparr>finalAnswer_s := answer_of l,
        needsClarification_s := (needsClarification_s st \<or> isClarifyingQuestion (answer_of l))\<rparr>"
  by (simp add: kind_of_def parse_line_def answer_of_def Let_def split: if_splits)

lemma parse_line_skip:
  "kind_of l = KObservation \<or> kind_of l = KOther \<Longrightarrow> parse_line env l st = st"
  by (auto simp add: kind_of_def parse_line_def Let_def split: if_splits)

lemma parse_line_Input:
  "kind_of l = KInput \<Longrightarrow>
   parse_line env l st =
     (case currentStep st of
        None \<Rightarrow> st
      | Some i \<Rightarrow>
          if length (steps_s st) \<le> i \<or> type (steps_s st ! i) \<noteq> Action then st
          else st\<lparr>steps_s :=
                    fst (executeToolAsync env i
                      ((steps_s st)[i := (steps_s st ! i)
                         \<lparr>actionInput := Some (input_of l),
                          content := content (steps_s st ! i) @ [CHR 0x0A] @ ''Action Input: '' @ input_of l\<rparr>])
                      (world st)),
                  world :=
                    snd (executeToolAsync env i
                      ((steps_s st)[i := (steps_s st ! i)
                         \<lparr>actionInput := Some (input_of l),
                          content := content (steps_s st ! i) @ [CHR 0x0A] @ ''Action Input: '' @ input_of l\<rparr>])
                      (world st))\<rparr>)"
  by (simp add: kind_of_def parse_line_def input_of_def Let_def split: if_splits prod.splits option.splits)

lemma parse_pair:
  assumes "kind_of l = KAction" and "kind_of l2 = KInput"
    and "name_of l \<noteq> []" and "input_of l2 \<noteq> []"
  shows "parse_line env l2 (parse_line env l st) =
     (let (t1, w1) = date_now env (world st);
          (result, w2) = run_tool env (name_of l) (input_of l2) w1;
          (t2, w3) = date_now env w2
      in st\<lparr>steps_s := steps_s st @
              [\<lparr>type = Action,
                content = ''Action: '' @ name_of l @ [CHR 0x0A] @ ''Action Input: '' @ input_of l2,
                actionName = Some (name_of l), actionInput = Some (input_of l2),
                timestamp = t1, toolResult = Some result\<rparr>,
               \<lparr>type = Observation, content = observationContent env result,
                actionName = None, actionInput = None, timestamp = t2, toolResult = Some result\<rparr>],
            currentStep := Some (length (steps_s st)),
            world := w3\<rparr>)"
  using assms
  by (simp add: parse_line_Action parse_line_Input executeToolAsync_def split: prod.splits)

lemma parse_lines_well_formed:
  "well_formed_pairs ls \<Longrightarrow>
   steps_s (parse_lines env ls st) = steps_s st @ expected_steps env ls (world st)"
proof (induction ls arbitrary: st rule: well_formed_pairs.induct)
  case 1
  show ?case by simp
next
  case (2 l)
  then show ?case
    by (cases "kind_of l") (simp_all add: parse_line_Thought parse_line_Final parse_line_skip)
next
  case (3 l l2 ls)
  show ?case
  proof (cases "kind_of l = KAction")
    case True
    with "3.prems" have wf: "kind_of l2 = KInput" "name_of l \<noteq> []" "input_of l2 \<noteq> []"
      "well_formed_pairs ls"
      by simp_all
    have "parse_lines env (l # l2 # ls) st = parse_lines env ls (parse_line env l2 (parse_line env l st))"
      by simp
    then show ?thesis
      using "3.IH"(1) [OF True wf(4), of "parse_line env l2 (parse_line env l st)"] True
      by (simp add: parse_pair [OF True wf(1,2,3)] split: prod.splits)
  next
    case False
    with "3.prems" have wf: "kind_of l \<noteq> KInput" "well_formed_pairs (l2 # ls)"
      by simp_all
    have step: "parse_lines env (l # l2 # ls) st = parse_lines env (l2 # ls) (parse_line env l st)"
      by simp
    show ?thesis
      using False wf(1) "3.IH"(2) [OF False wf(2), of "parse_line env l st"]
      unfolding step
      by (cases "kind_of l")
         (simp_all add: parse_line_Thought parse_line_Final parse_line_skip split: prod.splits)
  qed
qed

lemma paired_Thought_Cons: "type s = Thought \<Longrightarrow> paired (s # ss) = paired ss"
  by (cases ss) simp_all

lemma expected_steps_paired: "well_formed_pairs ls \<Longrightarrow> paired (expected_steps env ls w)"
proof (induction ls arbitrary: w rule: well_formed_pairs.induct)
  case 1
  show ?case by simp
next
  case (2 l)
  then show ?case by simp
next
  case (3 l l2 ls)
  show ?case
  proof (cases "kind_of l = KAction")
    case True
    with "3.prems" "3.IH"(1) show ?thesis
      by (simp split: prod.splits)
  next
    case False
    with "3.prems" have wf: "well_formed_pairs (l2 # ls)" by simp
    from False "3.IH"(2) [OF False wf] show ?thesis
      by (simp add: paired_Thought_Cons split: prod.splits)
  qed
qed

lemma expected_steps_actions:
  "well_formed_pairs ls \<Longrightarrow>
   length (filter (\<lambda>s. type s = Action) (expected_steps env ls w)) = count_pairs ls \<and>
   length (filter (\<lambda>s. type s = Observation) (expected_steps env ls w)) = count_pairs ls"
proof (induction ls arbitrary: w rule: well_formed_pairs.induct)
  case 1
  show ?case by (simp add: count_pairs_def)
next
  case (2 l)
  then show ?case by (simp add: count_pairs_def)
next
  case (3 l l2 ls)
  show ?case
  proof (cases "kind_of l = KAction")
    case True
    with "3.prems" "3.IH"(1) show ?thesis
      by (simp add: count_pairs_def split: prod.splits)
  next
    case False
    with "3.prems" have wf: "well_formed_pairs (l2 # ls)" by simp
    from False "3.IH"(2) [OF False wf] show ?thesis
      by (simp add: count_pairs_def split: prod.splits)
  qed
qed

lemmas line_eval = response_lines_def kind_of_def name_of_def input_of_def answer_of_def trim_def
  is_ws_def startsWith_def substring_def

text \<open>
  C1, as stated, fails: the parser keeps the last action step as the current one, so
  an \<open>Action Input:\<close> line that does not follow an \<open>Action:\<close> line runs the tool of that step
  again. In the completion below the one \<open>Action:\<close> line is immediately followed by its
  \<open>Action Input:\<close> line, yet the action step is followed by two observation steps, and
  it ends up with the input and the result of the second run.
\<close>

theorem repeated_input_counterexample:
  "each_action_followed
     (response_lines ''Action: Clarify\<newline>Action Input: Which area?\<newline>Action Input: Which budget?'') \<and>
   count_pairs
     (response_lines ''Action: Clarify\<newline>Action Input: Which area?\<newline>Action Input: Which budget?'') = 1 \<and>
   map type (steps (fst (parseReActResponse offline_env
     ''Action: Clarify\<newline>Action Input: Which area?\<newline>Action Input: Which budget?'' [] 0))) =
     [Action, Observation, Observation] \<and>
   map toolResult (steps (fst (parseReActResponse offline_env
     ''Action: Clarify\<newline>Action Input: Which area?\<newline>Action Input: Which budget?'' [] 0))) =
     [Some (clarify ''Which budget?''), Some (clarify ''Which area?''), Some (clarify ''Which budget?'')]"
  by (simp add: line_eval count_pairs_def parseReActResponse_def parse_line_def executeToolAsync_def
      run_tool_def char_eval offline_env_def Let_def)

text \<open>
  C1, amended. When the \<open>Action:\<close> and \<open>Action Input:\<close> lines of a completion form \<open>N\<close>
  well-formed pairs and nothing else (each \<open>Action:\<close> line names a tool and is
  immediately followed by an \<open>Action Input:\<close> line with an input, and each
  \<open>Action Input:\<close> line immediately follows an \<open>Action:\<close> line), the parser adds to the steps
  exactly the expected ones: \<open>N\<close> action steps, each immediately followed by one
  observation step that carries the result of running the named tool on the input,
  the tools being run in the order of the pairs; \<open>Observation:\<close> lines add nothing.
\<close>

theorem well_formed_pairs_steps:
  assumes "well_formed_pairs (response_lines response)"
  shows "steps (fst (parseReActResponse env response steps0 w)) =
           steps0 @ expected_steps env (response_lines response) w \<and>
         paired (expected_steps env (response_lines response) w) \<and>
         length (filter (\<lambda>s. type s = Action) (expected_steps env (response_lines response) w)) =
           count_pairs (response_lines response) \<and>
         length (filter (\<lambda>s. type s = Observation) (expected_steps env (response_lines response) w)) =
           count_pairs (response_lines response)"
  using parse_lines_well_formed [OF assms, of env]
    expected_steps_paired [OF assms, of env w] expected_steps_actions [OF assms, of env w]
  by (simp add: parseReActResponse_def Let_def)

theorem well_formed_pairs_steps_witness:
  "well_formed_pairs (response_lines
     ''Thought: ask first\<newline>Action: Clarify\<newline>Action Input: Which area?\<newline>Observation: Thamel\<newline>Action: Search\<newline>Action Input: rent in Thamel\<newline>Final Answer: Done.'') \<and>
   count_pairs (response_lines
     ''Thought: ask first\<newline>Action: Clarify\<newline>Action Input: Which area?\<newline>Observation: Thamel\<newline>Action: Search\<newline>Action Input: rent in Thamel\<newline>Final Answer: Done.'') = 2 \<and>
   map type (steps (fst (parseReActResponse offline_env
     ''Thought: ask first\<newline>Action: Clarify\<newline>Action Input: Which area?\<newline>Observation: Thamel\<newline>Action: Search\<newline>Action Input: rent in Thamel\<newline>Final Answer: Done.'' [] 0))) =
     [Thought, Action, Observation, Action, Observation] \<and>
   map toolResult (steps (fst (parseReActResponse offline_env
     ''Thought: ask first\<newline>Action: Clarify\<newline>Action Input: Which area?\<newline>Observation: Thamel\<newline>Action: Search\<newline>Action Input: rent in Thamel\<newline>Final Answer: Done.'' [] 0))) =
     [None, Some (clarify ''Which area?''), Some (clarify ''Which area?''),
      Some (fst (search offline_env ''rent in Thamel'' 2)),
      Some (fst (search offline_env ''rent in Thamel'' 2))]"
  using well_formed_pairs_steps [of
     "''Thought: ask first\<newline>Action: Clarify\<newline>Action Input: Which area?\<newline>Observation: Thamel\<newline>Action: Search\<newline>Action Input: rent in Thamel\<newline>Final Answer: Done.''"
     offline_env "[]" 0]
  by (simp add: line_eval count_pairs_def run_tool_def search_def char_eval offline_env_def)

lemma parse_line_same_trace:
  "same_trace st st' \<Longrightarrow> same_trace (parse_line env l st) (parse_line env l st')"
  by (cases "kind_of l")
     (auto simp add: same_trace_def parse_line_Thought parse_line_Action parse_line_Input
        parse_line_Final parse_line_skip split: option.splits)

lemma parse_lines_without_final:
  "same_trace st st' \<Longrightarrow>
   same_trace (parse_lines env ls st)
     (parse_lines env (filter (\<lambda>l. kind_of l \<noteq> KFinal) ls) st')"
proof (induction ls arbitrary: st st')
  case Nil
  then show ?case by simp
next
  case (Cons l ls)
  show ?case
  proof (cases "kind_of l = KFinal")
    case True
    with Cons.prems have "same_trace (parse_line env l st) st'"
      by (simp add: parse_line_Final same_trace_def)
    with True Cons.IH show ?thesis by simp
  next
    case False
    with Cons.IH [OF parse_line_same_trace [OF Cons.prems, of env l]] show ?thesis by simp
  qed
qed

lemma parse_line_keeps_answer:
  "kind_of l \<noteq> KFinal \<Longrightarrow> finalAnswer_s (parse_line env l st) = finalAnswer_s st"
  by (cases "kind_of l")
     (simp_all add: parse_line_Thought parse_line_Action parse_line_Input parse_line_skip
        split: option.splits)

lemma parse_lines_answer:
  "finalAnswer_s (parse_lines env ls st) =
     (if filter (\<lambda>l. kind_of l = KFinal) ls = [] then finalAnswer_s st else loop_answer ls)"
proof (induction ls arbitrary: st)
  case Nil
  show ?case by simp
next
  case (Cons l ls)
  show ?case
  proof (cases "kind_of l = KFinal")
    case True
    then show ?thesis
      by (simp add: Cons.IH parse_line_Final loop_answer_def)
  next
    case False
    then show ?thesis
      by (simp add: Cons.IH parse_line_keeps_answer loop_answer_def)
  qed
qed

lemma loop_answer_none: "filter (\<lambda>l. kind_of l = KFinal) ls = [] \<Longrightarrow> loop_answer ls = []"
  by (simp add: loop_answer_def)

text \<open>
  C7, as stated, fails: the loop has no \<open>break\<close>. After a \<open>Final Answer:\<close> line a
  \<open>Thought:\<close> line still adds a thought step and an \<open>Action:\<close>/\<open>Action Input:\<close> pair still
  runs its tool; and of two \<open>Final Answer:\<close> lines it is the second that sets the answer.
\<close>

theorem final_answer_counterexample:
  "map type (steps (fst (parseReActResponse offline_env
     ''Final Answer: Done.\<newline>Thought: one more\<newline>Action: Clarify\<newline>Action Input: Which area?'' [] 0))) =
     [Thought, Action, Observation] \<and>
   map toolResult (steps (fst (parseReActResponse offline_env
     ''Final Answer: Done.\<newline>Thought: one more\<newline>Action: Clarify\<newline>Action Input: Which area?'' [] 0))) =
     [None, Some (clarify ''Which area?''), Some (clarify ''Which area?'')] \<and>
   finalAnswer (fst (parseReActResponse offline_env
     ''Final Answer: First.\<newline>Final Answer: Second.'' [] 0)) = ''Second.''"
  by (simp add: line_eval parseReActResponse_def parse_line_def executeToolAsync_def
      run_tool_def char_eval offline_env_def Let_def)

text \<open>
  C7, amended. A \<open>Final Answer:\<close> line does not end the parsing: the steps are those of
  the completion with its \<open>Final Answer:\<close> lines taken out, so the lines after one are
  parsed, and their tools run, as they would be without it. The answer is the text
  of the last \<open>Final Answer:\<close> line; when there is no such line, or that text is empty, it
  is what the regular expression recovers from the whole completion; and when that is
  empty too, it is the canned sentence. The answer is never empty.
\<close>

theorem final_answer_parsing:
  "steps (fst (parseReActResponse env response steps0 w)) =
     steps_s (parse_lines env (filter (\<lambda>l. kind_of l \<noteq> KFinal) (response_lines response))
       \<lparr>steps_s = steps0, currentStep = None, finalAnswer_s = [],
        needsClarification_s = False, world = w\<rparr>) \<and>
   finalAnswer (fst (parseReActResponse env response steps0 w)) =
     (if loop_answer (response_lines response) \<noteq> [] then loop_answer (response_lines response)
      else if recoveredAnswer response \<noteq> [] then recoveredAnswer response
      else ''I need more information to provide a helpful response.'') \<and>
   finalAnswer (fst (parseReActResponse env response steps0 w)) \<noteq> []"
proof -
  let ?st0 = "\<lparr>steps_s = steps0, currentStep = None, finalAnswer_s = [],
               needsClarification_s = False, world = w\<rparr>"
  have "same_trace (parse_lines env (response_lines response) ?st0)
      (parse_lines env (filter (\<lambda>l. kind_of l \<noteq> KFinal) (response_lines response)) ?st0)"
    by (rule parse_lines_without_final) (simp add: same_trace_def)
  then have trace: "steps (fst (parseReActResponse env response steps0 w)) =
      steps_s (parse_lines env (filter (\<lambda>l. kind_of l \<noteq> KFinal) (response_lines response)) ?st0)"
    by (simp add: parseReActResponse_def Let_def same_trace_def)
  have "finalAnswer_s (parse_lines env (response_lines response) ?st0) =
      loop_answer (response_lines response)"
    by (simp add: parse_lines_answer loop_answer_none)
  then have answer: "finalAnswer (fst (parseReActResponse env response steps0 w)) =
     (if loop_answer (response_lines response) \<noteq> [] then loop_answer (response_lines response)
      else if recoveredAnswer response \<noteq> [] then recoveredAnswer response
      else ''I need more information to provide a helpful response.'')"
    by (simp add: parseReActResponse_def Let_def)
  have "finalAnswer (fst (parseReActResponse env response steps0 w)) \<noteq> []"
    by (simp add: parseReActResponse_def Let_def)
  with trace answer show ?thesis by blast
qed

text \<open>
  C3. The flag is computed only where a \<open>Final Answer:\<close> line is parsed, from the text
  of that line. When the line itself is empty and the answer is recovered by the
  regular expression, the flag stays false although the answer is a question with
  two of the phrases; and when a later \<open>Final Answer:\<close> line replaces a clarifying
  answer, the flag stays true.
\<close>

theorem clarification_flag_not_from_answer:
  "parseReActResponse env
     ''Final Answer:\<newline>Could you tell me more about your budget?'' steps0 w =
     (\<lparr>steps = steps0, finalAnswer = ''Could you tell me more about your budget?'',
       isComplete = True, needsClarification = False\<rparr>, w) \<and>
   isClarifyingQuestion ''Could you tell me more about your budget?'' \<and>
   parseReActResponse env
     ''Final Answer: Could you help me?\<newline>Final Answer: Here are three flats.'' steps0 w =
     (\<lparr>steps = steps0, finalAnswer = ''Here are three flats.'',
       isComplete = True, needsClarification = True\<rparr>, w) \<and>
   \<not> isClarifyingQuestion ''Here are three flats.''"
proof -
  have recovered: "recoveredAnswer ''Final Answer:\<newline>Could you tell me more about your budget?'' =
      ''Could you tell me more about your budget?''"
    by (simp add: recoveredAnswer_def str_match_def final_answer_re_def regex_eval char_eval trim_def)
  have question: "isClarifyingQuestion ''Could you tell me more about your budget?''"
    by (simp add: isClarifyingQuestion_def startsWith_def char_eval)
  have first: "parseReActResponse env
     ''Final Answer:\<newline>Could you tell me more about your budget?'' steps0 w =
     (\<lparr>steps = steps0, finalAnswer = ''Could you tell me more about your budget?'',
       isComplete = True, needsClarification = False\<rparr>, w)"
    unfolding parseReActResponse_def recovered
    by (simp add: line_eval parse_line_def isClarifyingQuestion_def Let_def)
  have second: "parseReActResponse env
     ''Final Answer: Could you help me?\<newline>Final Answer: Here are three flats.'' steps0 w =
     (\<lparr>steps = steps0, finalAnswer = ''Here are three flats.'',
       isComplete = True, needsClarification = True\<rparr>, w)"
    by (simp add: parseReActResponse_def line_eval parse_line_def isClarifyingQuestion_def
        char_eval Let_def)
  have statement: "\<not> isClarifyingQuestion ''Here are three flats.''"
    by (simp add: isClarifyingQuestion_def startsWith_def char_eval)
  from first question second statement show ?thesis by blast
qed

end
